theory Spec2Isabelle
  imports Complex_Main "HOL-Library.AList"
begin

section \<open>Cylindrify: the add-on's own logic over a model of the host scene\<close>

text \<open>
  The add-on (\<^verbatim>\<open>src/_init_.py\<close>) is written in Python against the host's scripting
  interface. Python floats are idealised as \<^typ>\<open>real\<close>: the theorems below are about
  the formulas the code evaluates, not about rounding. Unit strings are byte strings; the
  only property of \<^verbatim>\<open>str.lower\<close> the code relies on is which strings it maps to
  \<^verbatim>\<open>"mm"\<close> and \<^verbatim>\<open>"cm"\<close>, and those are decided by the ASCII letters.
\<close>

subsection \<open>Helpers\<close>

datatype py_error = ValueError | ZeroDivisionError | AttributeError

text \<open>Sequencing of computations that may raise: the first exception wins.\<close>

definition bindE :: "py_error + 'a \<Rightarrow> ('a \<Rightarrow> py_error + 'b) \<Rightarrow> py_error + 'b" where
  "bindE m f = (case m of Inl e \<Rightarrow> Inl e | Inr x \<Rightarrow> f x)"

text \<open>\<^verbatim>\<open>a / b\<close> on floats raises ZeroDivisionError for a zero divisor.\<close>

definition py_div :: "real \<Rightarrow> real \<Rightarrow> py_error + real" where
  "py_div a b = (if b = 0 then Inl ZeroDivisionError else Inr (a / b))"

text \<open>\<^verbatim>\<open>math.asin\<close> raises ValueError (math domain error) outside [-1, 1].\<close>

definition py_asin :: "real \<Rightarrow> py_error + real" where
  "py_asin x = (if - 1 \<le> x \<and> x \<le> 1 then Inr (arcsin x) else Inl ValueError)"

text \<open>\<^verbatim>\<open>min(xs)\<close> and \<^verbatim>\<open>max(xs)\<close> raise ValueError on an empty sequence.\<close>

definition py_min :: "real list \<Rightarrow> py_error + real" where
  "py_min xs = (case xs of [] \<Rightarrow> Inl ValueError | x # r \<Rightarrow> Inr (fold min r x))"

definition py_max :: "real list \<Rightarrow> py_error + real" where
  "py_max xs = (case xs of [] \<Rightarrow> Inl ValueError | x # r \<Rightarrow> Inr (fold max r x))"

text \<open>\<^verbatim>\<open>int(x)\<close> on a float truncates towards zero.\<close>

definition py_int :: "real \<Rightarrow> int" where
  "py_int x = (if 0 \<le> x then \<lfloor>x\<rfloor> else \<lceil>x\<rceil>)"

definition lower_char :: "char \<Rightarrow> char" where
  "lower_char c =
     (let n = (of_char c :: nat) in if 65 \<le> n \<and> n \<le> 90 then char_of (n + 32) else c)"

definition lower :: "string \<Rightarrow> string" where
  "lower s = map lower_char s"

text \<open>
  \<^verbatim>\<open>
  def _to_meters(value: float, unit: str = "m") -> float:
      unit = (unit or "m").lower()
      if unit == "mm": return value / 1000.0
      if unit == "cm": return value / 100.0
      return value
  \<close>
  The unit is a string or None; \<^verbatim>\<open>unit or "m"\<close> replaces None and the empty string.
\<close>

definition to_meters :: "real \<Rightarrow> string option \<Rightarrow> real" where
  "to_meters v unit =
     (let u = lower (case unit of None \<Rightarrow> ''m'' | Some s \<Rightarrow> if s = [] then ''m'' else s)
      in if u = ''mm'' then v / 1000
         else if u = ''cm'' then v / 100
         else v)"

subsection \<open>The host's data: vectors, matrices, objects, the scene\<close>

text \<open>
  The host (a 3D application) is not part of the repository. Only what the add-on reads
  and writes is modelled: an object's location, rotation and scale, its local bounding
  box (\<^verbatim>\<open>bound_box\<close>, the corners of the box around its mesh), its world matrix
  (\<^verbatim>\<open>matrix_world\<close>), its modifier stack and its selection flag. The host
  evaluates the world matrix lazily: assigning to \<^verbatim>\<open>location\<close> or \<^verbatim>\<open>scale\<close>
  leaves \<^verbatim>\<open>matrix_world\<close> as it was until \<^verbatim>\<open>view_layer.update()\<close> (or an
  operator) re-evaluates the scene. Objects have no parent here, so the evaluated matrix
  is translation \<open>\<cdot>\<close> rotation \<open>\<cdot>\<close> scale. The \<open>name\<close> field holds the name as
  it was assigned; the host appends a suffix when the name is taken, so the theorems of
  the last section leave open which name an object ends up with.
\<close>

type_synonym vec3 = "real \<times> real \<times> real"

definition vec_x :: "vec3 \<Rightarrow> real" where "vec_x v = fst v"
definition vec_y :: "vec3 \<Rightarrow> real" where "vec_y v = fst (snd v)"
definition vec_z :: "vec3 \<Rightarrow> real" where "vec_z v = snd (snd v)"

definition vec_add :: "vec3 \<Rightarrow> vec3 \<Rightarrow> vec3" where
  "vec_add u v = (vec_x u + vec_x v, vec_y u + vec_y v, vec_z u + vec_z v)"

definition vec_smul :: "real \<Rightarrow> vec3 \<Rightarrow> vec3" where
  "vec_smul k v = (k * vec_x v, k * vec_y v, k * vec_z v)"

definition vec_div :: "vec3 \<Rightarrow> real \<Rightarrow> vec3" where
  "vec_div v k = (vec_x v / k, vec_y v / k, vec_z v / k)"

text \<open>
  An affine 4x4 matrix, given by the three columns of its linear part and its
  translation column; \<^verbatim>\<open>M @ Vector(p)\<close> reads the point as \<open>(x, y, z, 1)\<close>.
\<close>

type_synonym matrix = "vec3 \<times> vec3 \<times> vec3 \<times> vec3"

definition mat_apply :: "matrix \<Rightarrow> vec3 \<Rightarrow> vec3" where
  "mat_apply m p =
     (case m of (a, b, c, t) \<Rightarrow>
        vec_add (vec_add (vec_add (vec_smul (vec_x p) a) (vec_smul (vec_y p) b))
                         (vec_smul (vec_z p) c)) t)"

record modifier =
  mod_type :: string
  levels :: int
  render_levels :: int
  subdivision_type :: string

record object =
  name :: string
  location :: vec3
  rotation :: "vec3 \<times> vec3 \<times> vec3"
  scale :: vec3
  bound_box :: "vec3 list"
  matrix_world :: matrix
  modifiers :: "(string \<times> modifier) list"
  selected :: bool

text \<open>
  Python holds objects by reference; the model holds them by handle in a store, so that
  two references to one object alias. Handles below \<open>n_objects\<close> are in use.
\<close>

record scene =
  objects :: "nat \<Rightarrow> object"
  n_objects :: nat
  active :: "nat option"

definition upd_object :: "nat \<Rightarrow> (object \<Rightarrow> object) \<Rightarrow> scene \<Rightarrow> scene" where
  "upd_object ob f s = s\<lparr>objects := (objects s)(ob := f (objects s ob))\<rparr>"

definition local_matrix :: "object \<Rightarrow> matrix" where
  "local_matrix ob =
     (case rotation ob of (a, b, c) \<Rightarrow>
        (vec_smul (vec_x (scale ob)) a, vec_smul (vec_y (scale ob)) b,
         vec_smul (vec_z (scale ob)) c, location ob))"

text \<open>\<^verbatim>\<open>context.view_layer.update()\<close>: every world matrix is re-evaluated.\<close>

definition view_layer_update :: "scene \<Rightarrow> scene" where
  "view_layer_update s =
     s\<lparr>objects := (\<lambda>i. (objects s i)\<lparr>matrix_world := local_matrix (objects s i)\<rparr>)\<rparr>"

text \<open>
  An object is evaluated when its world matrix is the one its location, rotation and
  scale give: the state in which the host hands a scene to an operator.
\<close>

definition evaluated :: "scene \<Rightarrow> nat \<Rightarrow> bool" where
  "evaluated s obj = (matrix_world (objects s obj) = local_matrix (objects s obj))"

text \<open>\<^verbatim>\<open>bpy.ops.object.select_all(action='DESELECT')\<close> and \<^verbatim>\<open>obj.select_set(v)\<close>.\<close>

definition select_all_deselect :: "scene \<Rightarrow> scene" where
  "select_all_deselect s = s\<lparr>objects := (\<lambda>i. (objects s i)\<lparr>selected := False\<rparr>)\<rparr>"

definition select_set :: "nat \<Rightarrow> bool \<Rightarrow> scene \<Rightarrow> scene" where
  "select_set ob v s = upd_object ob (\<lambda>ob. ob\<lparr>selected := v\<rparr>) s"

text \<open>
  \<^verbatim>\<open>bpy.ops.mesh.primitive_cube_add(size=1.0, align='WORLD', location=(0,0,0))\<close>:
  a new object, a cube of edge 1 around the world origin, selected alone and active.
\<close>

definition unit_cube_box :: "vec3 list" where
  "unit_cube_box =
     [(- 1/2, - 1/2, - 1/2), (- 1/2, - 1/2, 1/2), (- 1/2, 1/2, 1/2), (- 1/2, 1/2, - 1/2),
      (1/2, - 1/2, - 1/2), (1/2, - 1/2, 1/2), (1/2, 1/2, 1/2), (1/2, 1/2, - 1/2)]"

definition new_cube :: object where
  "new_cube =
     \<lparr>name = ''Cube'', location = (0, 0, 0),
      rotation = ((1, 0, 0), (0, 1, 0), (0, 0, 1)), scale = (1, 1, 1),
      bound_box = unit_cube_box,
      matrix_world = ((1, 0, 0), (0, 1, 0), (0, 0, 1), (0, 0, 0)),
      modifiers = [], selected = True\<rparr>"

definition primitive_cube_add :: "scene \<Rightarrow> scene" where
  "primitive_cube_add s =
     (let s1 = select_all_deselect s
      in s1\<lparr>objects := (objects s1)(n_objects s := new_cube),
            n_objects := Suc (n_objects s), active := Some (n_objects s)\<rparr>)"

text \<open>
  \<^verbatim>\<open>obj.dimensions\<close> is the size of the object's bounding box after scaling; assigning
  to it sets the scale so that the box gets the given size (an axis along which the box
  is flat keeps its scale).
\<close>

definition extent :: "real list \<Rightarrow> real" where
  "extent xs = (case xs of [] \<Rightarrow> 0 | x # r \<Rightarrow> fold max r x - fold min r x)"

definition box_size :: "object \<Rightarrow> vec3" where
  "box_size ob =
     (extent (map vec_x (bound_box ob)), extent (map vec_y (bound_box ob)),
      extent (map vec_z (bound_box ob)))"

definition dimensions :: "object \<Rightarrow> vec3" where
  "dimensions ob =
     (\<bar>vec_x (scale ob)\<bar> * vec_x (box_size ob), \<bar>vec_y (scale ob)\<bar> * vec_y (box_size ob),
      \<bar>vec_z (scale ob)\<bar> * vec_z (box_size ob))"

definition set_dimensions :: "vec3 \<Rightarrow> object \<Rightarrow> object" where
  "set_dimensions d ob =
     ob\<lparr>scale :=
       (if 0 < vec_x (box_size ob) then vec_x d / vec_x (box_size ob) else vec_x (scale ob),
        if 0 < vec_y (box_size ob) then vec_y d / vec_y (box_size ob) else vec_y (scale ob),
        if 0 < vec_z (box_size ob) then vec_z d / vec_z (box_size ob) else vec_z (scale ob))\<rparr>"

subsection \<open>Properties\<close>

text \<open>
  The per-scene settings (\<^verbatim>\<open>CYLSVG_Props\<close>). The two object references are handles
  or None; the unit selectors are the enum's identifiers.
\<close>

record props =
  flat_obj :: "nat option"
  cube_obj :: "nat option"
  svg_orig_x :: real
  thk_value :: real
  thk_unit :: string
  cyl_outer_r :: real
  cyl_inner_r :: real
  cyl_height :: real
  cyl_unit :: string
  cyl_subdiv :: real
  preserve_apparent_width :: bool

text \<open>
  The ranges the property declarations give the cylinder inputs
  (\<^verbatim>\<open>FloatProperty(..., min=0.0)\<close>; the subdivision count has \<^verbatim>\<open>min=1.0, max=10.0\<close>):
  the host clamps an assigned value into them.
\<close>

definition props_ranges :: "props \<Rightarrow> bool" where
  "props_ranges p =
     (0 \<le> svg_orig_x p \<and> 0 \<le> thk_value p \<and> 0 \<le> cyl_outer_r p \<and> 0 \<le> cyl_inner_r p \<and>
      0 \<le> cyl_height p \<and> 1 \<le> cyl_subdiv p \<and> cyl_subdiv p \<le> 10)"

subsection \<open>The add-on's helpers on objects\<close>

text \<open>
  \<^verbatim>\<open>obj.modifiers.new(name, type)\<close> appends a modifier with the host's defaults;
  \<^verbatim>\<open>obj.modifiers.get(name)\<close> finds one by name.
\<close>

definition new_modifier :: "string \<Rightarrow> modifier" where
  "new_modifier ty =
     \<lparr>mod_type = ty, levels = 1, render_levels = 2, subdivision_type = ''CATMULL_CLARK''\<rparr>"

definition ensure_subsurf :: "nat \<Rightarrow> string \<Rightarrow> int \<Rightarrow> scene \<Rightarrow> scene" where
  "ensure_subsurf obj nm lv s =
     upd_object obj (\<lambda>ob.
       let m = (case map_of (modifiers ob) nm of
                  None \<Rightarrow> new_modifier ''SUBSURF''
                | Some m \<Rightarrow> m);
           m1 = m\<lparr>levels := max 1 lv\<rparr>;
           m2 = m1\<lparr>render_levels := levels m1\<rparr>;
           m3 = m2\<lparr>subdivision_type := ''SIMPLE''\<rparr>
       in ob\<lparr>modifiers := AList.update nm m3 (modifiers ob)\<rparr>) s"

text \<open>
  \<^verbatim>\<open>_apply_modifiers\<close>: the host's \<^verbatim>\<open>modifier_apply\<close> operator works on the active
  object and may raise; the loop swallows the exception and goes on. The operator is a
  parameter: \<open>None\<close> is a raised exception, \<open>Some s'\<close> the scene after the modifier was
  applied.
\<close>

definition apply_modifiers ::
    "(string \<Rightarrow> scene \<Rightarrow> scene option) \<Rightarrow> nat option \<Rightarrow> scene \<Rightarrow> scene" where
  "apply_modifiers modifier_apply obj s =
     (case obj of
        None \<Rightarrow> s
      | Some ob \<Rightarrow>
          let s1 = select_all_deselect s;
              s2 = select_set ob True s1;
              s3 = s2\<lparr>active := Some ob\<rparr>
          in fold (\<lambda>m st. case modifier_apply (fst m) st of None \<Rightarrow> st | Some st' \<Rightarrow> st')
               (modifiers (objects s3 ob)) s3)"

text \<open>
  What the cube operator needs of the host's \<^verbatim>\<open>modifier_apply\<close>: applying a
  subdivision modifier of type SIMPLE to the active object splits its faces where they
  are, so the object keeps its scale and its bounding box.
\<close>

definition simple_subdivision_keeps_shape :: "(string \<Rightarrow> scene \<Rightarrow> scene option) \<Rightarrow> bool" where
  "simple_subdivision_keeps_shape modifier_apply =
     (\<forall>nm st st' a m.
        modifier_apply nm st = Some st' \<and> active st = Some a \<and>
        map_of (modifiers (objects st a)) nm = Some m \<and>
        mod_type m = ''SUBSURF'' \<and> subdivision_type m = ''SIMPLE'' \<longrightarrow>
        scale (objects st' a) = scale (objects st a) \<and>
        bound_box (objects st' a) = bound_box (objects st a))"

definition world_bbox :: "scene \<Rightarrow> nat \<Rightarrow> vec3 list" where
  "world_bbox s obj =
     map (mat_apply (matrix_world (objects s obj))) (bound_box (objects s obj))"

definition world_bbox_min_max_z :: "scene \<Rightarrow> nat \<Rightarrow> py_error + real \<times> real" where
  "world_bbox_min_max_z s obj =
     (let zs = map vec_z (world_bbox s obj)
      in bindE (py_min zs) (\<lambda>lo. bindE (py_max zs) (\<lambda>hi. Inr (lo, hi))))"

definition world_bbox_center_xy :: "scene \<Rightarrow> nat \<Rightarrow> real \<times> real" where
  "world_bbox_center_xy s obj =
     (let coords = world_bbox s obj;
          c = fold (\<lambda>p c. vec_add c p) coords (0, 0, 0);
          c = vec_div c 8
      in (vec_x c, vec_y c))"

definition world_bbox_size :: "scene \<Rightarrow> nat \<Rightarrow> py_error + vec3" where
  "world_bbox_size s obj =
     (let coords = world_bbox s obj;
          xs = map vec_x coords; ys = map vec_y coords; zs = map vec_z coords
      in bindE (py_max xs) (\<lambda>xh. bindE (py_min xs) (\<lambda>xl.
         bindE (py_max ys) (\<lambda>yh. bindE (py_min ys) (\<lambda>yl.
         bindE (py_max zs) (\<lambda>zh. bindE (py_min zs) (\<lambda>zl.
           Inr (xh - xl, yh - yl, zh - zl))))))))"

definition move_by :: "nat \<Rightarrow> real \<Rightarrow> real \<Rightarrow> real \<Rightarrow> scene \<Rightarrow> scene" where
  "move_by obj dx dy dz s =
     upd_object obj (\<lambda>ob. ob\<lparr>location :=
       (vec_x (location ob) + dx, vec_y (location ob) + dy, vec_z (location ob) + dz)\<rparr>) s"

subsection \<open>Operators\<close>

datatype status = FINISHED | CANCELLED

datatype level = ERROR | INFO

text \<open>A reported message: a fixed text, or the formatted cube dimensions.\<close>

datatype message = Text string | CylinderToCube real real real

type_synonym outcome = "status \<times> (level \<times> message) list \<times> props \<times> scene"

text \<open>
  The import operator, after the host has imported and converted the drawing and the
  add-on has rotated it, stores the width of the flat object:
  \<^verbatim>\<open>props.svg_orig_x = _world_bbox_size(flat)[0]\<close>; the property has \<^verbatim>\<open>min=0.0\<close>.
\<close>

definition ImportSVG_store_orig_x :: "props \<Rightarrow> nat \<Rightarrow> scene \<Rightarrow> py_error + props" where
  "ImportSVG_store_orig_x p flat s =
     bindE (world_bbox_size s flat) (\<lambda>sz. Inr (p\<lparr>svg_orig_x := max 0 (vec_x sz)\<rparr>))"

text \<open>\<^verbatim>\<open>CYLSVG_OT_AddCubeFromCylinder.execute\<close>\<close>

definition AddCubeFromCylinder_execute ::
    "(string \<Rightarrow> scene \<Rightarrow> scene option) \<Rightarrow> props \<Rightarrow> scene \<Rightarrow> py_error + outcome" where
  "AddCubeFromCylinder_execute modifier_apply p s =
     (let outer = to_meters (cyl_outer_r p) (Some (cyl_unit p));
          inner = to_meters (cyl_inner_r p) (Some (cyl_unit p));
          height = to_meters (cyl_height p) (Some (cyl_unit p))
      in if inner \<ge> outer
         then Inr (CANCELLED,
                [(ERROR, Text ''Inner radius must be smaller than outer radius.'')], p, s)
         else
           let X = 2 * pi * outer; Y = height; Z = outer - inner;
               s1 = primitive_cube_add s
           in case active s1 of
                None \<Rightarrow> Inl AttributeError
              | Some cube \<Rightarrow>
                  let s2 = upd_object cube (\<lambda>ob. ob\<lparr>name := ''CYLSVG_Cube''\<rparr>) s1;
                      s3 = upd_object cube (set_dimensions (X, Y, Z)) s2;
                      s4 = ensure_subsurf cube ''CYLSVG_CubeSubd'' (py_int (cyl_subdiv p)) s3;
                      s5 = apply_modifiers modifier_apply (Some cube) s4
                  in Inr (FINISHED, [(INFO, CylinderToCube X Y Z)],
                          p\<lparr>cube_obj := Some cube\<rparr>, s5))"

text \<open>
  \<^verbatim>\<open>CYLSVG_OT_PlaceSvgOnCubeTopJoin.execute\<close>, in three parts: the optional scaling
  (the block under \<^verbatim>\<open>if p.preserve_apparent_width and p.svg_orig_x > 0\<close>), the two
  moves, and the join. In the first part \<^verbatim>\<open>asin\<close> and the float division are
  parameters, so that it can be said on which arguments the block uses them; the operator
  uses Python's.
\<close>

definition apparent_width_with ::
    "(real \<Rightarrow> py_error + real) \<Rightarrow> (real \<Rightarrow> real \<Rightarrow> py_error + real) \<Rightarrow>
     props \<Rightarrow> nat \<Rightarrow> scene \<Rightarrow> py_error + scene" where
  "apparent_width_with asin_f div_f p flat s =
     (if preserve_apparent_width p \<and> svg_orig_x p > 0 then
        let R = to_meters (cyl_outer_r p) (Some (cyl_unit p));
            W_orig = svg_orig_x p;
            max_chord = 2 * R
        in if W_orig < max_chord \<and> R > 0 then
             bindE (div_f W_orig (2 * R)) (\<lambda>q.
             bindE (asin_f q) (\<lambda>a.
               let L_target = 2 * R * a
               in bindE (world_bbox_size s flat) (\<lambda>sz.
                    let cur_X = vec_x sz
                    in if cur_X > 0 then
                         bindE (div_f L_target cur_X) (\<lambda>k.
                           Inr (view_layer_update
                                  (upd_object flat (\<lambda>ob. ob\<lparr>scale :=
                                     (vec_x (scale ob) * k, vec_y (scale ob), vec_z (scale ob))\<rparr>)
                                   s)))
                       else Inr s)))
           else Inr s
      else Inr s)"

definition apparent_width :: "props \<Rightarrow> nat \<Rightarrow> scene \<Rightarrow> py_error + scene" where
  "apparent_width = apparent_width_with py_asin py_div"

definition PlaceSvgOnCubeTopJoin_place ::
    "props \<Rightarrow> nat \<Rightarrow> nat \<Rightarrow> scene \<Rightarrow> py_error + scene" where
  "PlaceSvgOnCubeTopJoin_place p flat cube s =
     bindE (apparent_width p flat s) (\<lambda>s1.
       let (cx, cy) = world_bbox_center_xy s1 cube;
           (sx, sy) = world_bbox_center_xy s1 flat;
           s2 = move_by flat (cx - sx) (cy - sy) 0 s1
       in bindE (world_bbox_min_max_z s2 cube) (\<lambda>(_, cube_top_z).
          bindE (world_bbox_min_max_z s2 flat) (\<lambda>(svg_min_z, _).
            Inr (move_by flat 0 0 (cube_top_z - svg_min_z) s2))))"

text \<open>
  The host's \<^verbatim>\<open>bpy.ops.object.join()\<close> merges the selected objects into the active
  one; it is a parameter. \<open>before_join\<close> is the scene it is called on.
\<close>

definition before_join :: "nat \<Rightarrow> nat \<Rightarrow> scene \<Rightarrow> scene" where
  "before_join flat cube s =
     (select_set flat True (select_set cube True (select_all_deselect s)))
       \<lparr>active := Some cube\<rparr>"

definition PlaceSvgOnCubeTopJoin_execute ::
    "(scene \<Rightarrow> scene) \<Rightarrow> props \<Rightarrow> scene \<Rightarrow> py_error + outcome" where
  "PlaceSvgOnCubeTopJoin_execute join p s =
     (case (flat_obj p, cube_obj p) of
        (Some flat, Some cube) \<Rightarrow>
          bindE (PlaceSvgOnCubeTopJoin_place p flat cube s) (\<lambda>s1.
            let s2 = join (before_join flat cube s1)
            in Inr (FINISHED, [(INFO, Text ''SVG aligned on cube and joined.'')],
                    p\<lparr>flat_obj := None, cube_obj := active s2\<rparr>, s2))
      | _ \<Rightarrow> Inr (CANCELLED, [(ERROR, Text ''SVG or Cube not set.'')], p, s))"

subsection \<open>Concrete inputs\<close>

text \<open>
  A scene with a flat object (handle 0; a slab 1 wide, 2 deep and 1/10 high, placed away
  from the origin) and a base cube (handle 1; the unit cube scaled to 4 by 2 by 1), both
  with their world matrices evaluated, and settings that refer to them: a cylinder of
  outer radius 100 cm, inner radius 80 cm and height 200 cm.
\<close>

definition example_flat :: object where
  "example_flat =
     \<lparr>name = ''SVG_Flat'', location = (3, 4, 5),
      rotation = ((1, 0, 0), (0, 1, 0), (0, 0, 1)), scale = (1, 1, 1),
      bound_box = [(0, 0, 0), (0, 0, 1/10), (0, 2, 1/10), (0, 2, 0),
                   (1, 0, 0), (1, 0, 1/10), (1, 2, 1/10), (1, 2, 0)],
      matrix_world = ((1, 0, 0), (0, 1, 0), (0, 0, 1), (3, 4, 5)),
      modifiers = [], selected = False\<rparr>"

definition example_cube :: object where
  "example_cube =
     \<lparr>name = ''CYLSVG_Cube'', location = (0, 0, 0),
      rotation = ((1, 0, 0), (0, 1, 0), (0, 0, 1)), scale = (4, 2, 1),
      bound_box = unit_cube_box,
      matrix_world = ((4, 0, 0), (0, 2, 0), (0, 0, 1), (0, 0, 0)),
      modifiers = [], selected = False\<rparr>"

definition example_scene :: scene where
  "example_scene =
     \<lparr>objects = (\<lambda>i. if i = 0 then example_flat else example_cube),
      n_objects = 2, active = None\<rparr>"

definition example_props :: props where
  "example_props =
     \<lparr>flat_obj = Some 0, cube_obj = Some 1, svg_orig_x = 1,
      thk_value = 2, thk_unit = ''mm'',
      cyl_outer_r = 100, cyl_inner_r = 80, cyl_height = 200, cyl_unit = ''cm'',
      cyl_subdiv = 7, preserve_apparent_width = True\<rparr>"

text \<open>A host that applies a modifier of the active object by taking it off the stack.\<close>

definition example_modifier_apply :: "string \<Rightarrow> scene \<Rightarrow> scene option" where
  "example_modifier_apply nm st =
     (case active st of
        None \<Rightarrow> None
      | Some a \<Rightarrow>
          (case map_of (modifiers (objects st a)) nm of
             None \<Rightarrow> None
           | Some m \<Rightarrow>
               Some (upd_object a
                      (\<lambda>ob. ob\<lparr>modifiers := AList.delete nm (modifiers ob)\<rparr>) st)))"

section \<open>Facts about the helpers\<close>

subsection \<open>Lower-casing\<close>

lemma lower_char_eq_iff:
  assumes "97 \<le> (of_char d :: nat)" "(of_char d :: nat) \<le> 122"
  shows "lower_char c = d \<longleftrightarrow> c = d \<or> (of_char c :: nat) + 32 = of_char d"
proof (cases "65 \<le> (of_char c :: nat) \<and> (of_char c :: nat) \<le> 90")
  case True
  then have "lower_char c = char_of ((of_char c :: nat) + 32)"
    by (simp add: lower_char_def)
  moreover have "(char_of ((of_char c :: nat) + 32) = d) = ((of_char c :: nat) + 32 = of_char d)"
    using True by (simp add: char_of_eq_iff take_bit_eq_mod)
  moreover have "c \<noteq> d" using True assms by auto
  ultimately show ?thesis by simp
next
  case False
  then have "lower_char c = c" by (auto simp add: lower_char_def Let_def)
  moreover have "(of_char c :: nat) + 32 \<noteq> of_char d" using False assms by auto
  ultimately show ?thesis by simp
qed

lemma lower_char_m: "lower_char c = CHR ''m'' \<longleftrightarrow> c = CHR ''m'' \<or> c = CHR ''M''"
proof -
  have "((of_char c :: nat) = 77) = (c = CHR ''M'')"
    using of_char_eq_iff [of c "CHR ''M''", where ?'a = nat] by simp
  then show ?thesis
    using lower_char_eq_iff [of "CHR ''m''" c] by simp
qed

lemma lower_char_c: "lower_char c = CHR ''c'' \<longleftrightarrow> c = CHR ''c'' \<or> c = CHR ''C''"
proof -
  have "((of_char c :: nat) = 67) = (c = CHR ''C'')"
    using of_char_eq_iff [of c "CHR ''C''", where ?'a = nat] by simp
  then show ?thesis
    using lower_char_eq_iff [of "CHR ''c''" c] by simp
qed

lemma lower_mm: "lower s = ''mm'' \<longleftrightarrow> s \<in> {''mm'', ''mM'', ''Mm'', ''MM''}"
  by (cases s; cases "tl s"; cases "tl (tl s)") (auto simp: lower_def lower_char_m)

lemma lower_cm: "lower s = ''cm'' \<longleftrightarrow> s \<in> {''cm'', ''cM'', ''Cm'', ''CM''}"
  by (cases s; cases "tl s"; cases "tl (tl s)") (auto simp: lower_def lower_char_m lower_char_c)

lemma lower_m: "lower s = ''m'' \<longleftrightarrow> s \<in> {''m'', ''M''}"
  by (cases s; cases "tl s") (auto simp: lower_def lower_char_m)

lemma lower_char_idem: "lower_char (lower_char c) = lower_char c"
proof (cases "65 \<le> (of_char c :: nat) \<and> (of_char c :: nat) \<le> 90")
  case True
  then have "lower_char c = char_of ((of_char c :: nat) + 32)"
    by (simp add: lower_char_def)
  moreover have "(of_char (char_of ((of_char c :: nat) + 32)) :: nat) = of_char c + 32"
    using True by simp
  ultimately show ?thesis using True by (simp add: lower_char_def)
next
  case False
  then show ?thesis by (auto simp add: lower_char_def Let_def)
qed

lemma lower_idem: "lower (lower s) = lower s"
  by (simp add: lower_def lower_char_idem)

text \<open>The conversion, read off the lower-cased unit; the empty string stands for "m".\<close>

lemma to_meters_Some:
  "to_meters v (Some x) =
     (if lower x = ''mm'' then v / 1000 else if lower x = ''cm'' then v / 100 else v)"
  by (cases "x = []") (simp_all add: to_meters_def lower_def lower_char_def)

subsection \<open>The cube operator\<close>

lemma to_meters_nonneg: "0 \<le> v \<Longrightarrow> 0 \<le> to_meters v u"
  by (simp add: to_meters_def Let_def)

lemma active_primitive_cube_add: "active (primitive_cube_add s) = Some (n_objects s)"
  by (simp add: primitive_cube_add_def Let_def select_all_deselect_def)

lemma box_size_unit_cube: "bound_box ob = unit_cube_box \<Longrightarrow> box_size ob = (1, 1, 1)"
  by (simp add: box_size_def unit_cube_box_def extent_def vec_x_def vec_y_def vec_z_def)

text \<open>The scene on which the cube operator applies the modifiers.\<close>

lemma add_cube_unfold:
  assumes "\<not> to_meters (cyl_outer_r p) (Some (cyl_unit p))
             \<le> to_meters (cyl_inner_r p) (Some (cyl_unit p))"
  shows "AddCubeFromCylinder_execute ma p s =
     Inr (FINISHED,
          [(INFO, CylinderToCube (2 * pi * to_meters (cyl_outer_r p) (Some (cyl_unit p)))
                    (to_meters (cyl_height p) (Some (cyl_unit p)))
                    (to_meters (cyl_outer_r p) (Some (cyl_unit p))
                       - to_meters (cyl_inner_r p) (Some (cyl_unit p))))],
          p\<lparr>cube_obj := Some (n_objects s)\<rparr>,
          apply_modifiers ma (Some (n_objects s))
            (ensure_subsurf (n_objects s) ''CYLSVG_CubeSubd'' (py_int (cyl_subdiv p))
              (upd_object (n_objects s)
                 (set_dimensions (2 * pi * to_meters (cyl_outer_r p) (Some (cyl_unit p)),
                    to_meters (cyl_height p) (Some (cyl_unit p)),
                    to_meters (cyl_outer_r p) (Some (cyl_unit p))
                      - to_meters (cyl_inner_r p) (Some (cyl_unit p))))
                 (upd_object (n_objects s) (\<lambda>ob. ob\<lparr>name := ''CYLSVG_Cube''\<rparr>)
                    (primitive_cube_add s)))))"
  using assms
  by (simp add: AddCubeFromCylinder_execute_def Let_def active_primitive_cube_add)

lemma cube_before_modifiers:
  fixes s :: scene and lv :: int and d :: vec3
  defines "s4 \<equiv> ensure_subsurf (n_objects s) ''CYLSVG_CubeSubd'' lv
              (upd_object (n_objects s) (set_dimensions d)
                 (upd_object (n_objects s) (\<lambda>ob. ob\<lparr>name := ''CYLSVG_Cube''\<rparr>)
                    (primitive_cube_add s)))"
  shows "n_objects s4 = Suc (n_objects s)"
    and "scale (objects s4 (n_objects s)) = d"
    and "bound_box (objects s4 (n_objects s)) = unit_cube_box"
    and "modifiers (objects s4 (n_objects s)) =
           [(''CYLSVG_CubeSubd'',
             \<lparr>mod_type = ''SUBSURF'', levels = max 1 lv, render_levels = max 1 lv,
              subdivision_type = ''SIMPLE''\<rparr>)]"
  unfolding s4_def
  by (simp_all add: ensure_subsurf_def upd_object_def primitive_cube_add_def Let_def
      select_all_deselect_def new_cube_def set_dimensions_def box_size_unit_cube
      new_modifier_def vec_x_def vec_y_def vec_z_def)

lemma cube_created:
  fixes s :: scene and lv :: int and d :: vec3
  defines "s4 \<equiv> ensure_subsurf (n_objects s) ''CYLSVG_CubeSubd'' lv
              (upd_object (n_objects s) (set_dimensions d)
                 (upd_object (n_objects s) (\<lambda>ob. ob\<lparr>name := ''CYLSVG_Cube''\<rparr>)
                    (primitive_cube_add s)))"
  shows "active s4 = Some (n_objects s)"
    and "\<forall>i. i \<noteq> n_objects s \<longrightarrow> objects s4 i = (objects s i)\<lparr>selected := False\<rparr>"
    and "objects s4 (n_objects s) =
           \<lparr>name = ''CYLSVG_Cube'', location = (0, 0, 0),
            rotation = ((1, 0, 0), (0, 1, 0), (0, 0, 1)), scale = d,
            bound_box = unit_cube_box,
            matrix_world = ((1, 0, 0), (0, 1, 0), (0, 0, 1), (0, 0, 0)),
            modifiers =
              [(''CYLSVG_CubeSubd'',
                \<lparr>mod_type = ''SUBSURF'', levels = max 1 lv, render_levels = max 1 lv,
                 subdivision_type = ''SIMPLE''\<rparr>)],
            selected = True\<rparr>"
  unfolding s4_def
  by (simp_all add: ensure_subsurf_def upd_object_def primitive_cube_add_def Let_def
      select_all_deselect_def new_cube_def set_dimensions_def box_size_unit_cube
      new_modifier_def vec_x_def vec_y_def vec_z_def)

lemma apply_modifiers_single:
  assumes mods: "modifiers (objects s4 c) = [(nm, m)]"
    and ty: "mod_type m = ''SUBSURF''" "subdivision_type m = ''SIMPLE''"
    and keeps: "simple_subdivision_keeps_shape ma"
  shows "scale (objects (apply_modifiers ma (Some c) s4) c) = scale (objects s4 c) \<and>
         bound_box (objects (apply_modifiers ma (Some c) s4) c) = bound_box (objects s4 c)"
proof -
  define s3 where "s3 = (select_set c True (select_all_deselect s4))\<lparr>active := Some c\<rparr>"
  have o3: "objects s3 c = (objects s4 c)\<lparr>selected := True\<rparr>"
    by (simp add: s3_def select_set_def upd_object_def select_all_deselect_def)
  have a3: "active s3 = Some c" by (simp add: s3_def)
  have m3: "modifiers (objects s3 c) = [(nm, m)]" using mods by (simp add: o3)
  have res: "apply_modifiers ma (Some c) s4 =
               (case ma nm s3 of None \<Rightarrow> s3 | Some st' \<Rightarrow> st')"
  proof -
    have "apply_modifiers ma (Some c) s4 =
            fold (\<lambda>m st. case ma (fst m) st of None \<Rightarrow> st | Some st' \<Rightarrow> st')
              (modifiers (objects s3 c)) s3"
      by (simp add: apply_modifiers_def Let_def s3_def)
    then show ?thesis by (simp add: m3)
  qed
  show ?thesis
  proof (cases "ma nm s3")
    case None
    then show ?thesis by (simp add: res o3)
  next
    case (Some st')
    have "map_of (modifiers (objects s3 c)) nm = Some m" by (simp add: m3)
    with keeps Some a3 ty
    have "scale (objects st' c) = scale (objects s3 c) \<and>
          bound_box (objects st' c) = bound_box (objects s3 c)"
      unfolding simple_subdivision_keeps_shape_def by blast
    then show ?thesis by (simp add: res Some o3)
  qed
qed

subsection \<open>Chord and arc\<close>

lemma sin_less_arg:
  fixes x :: real
  assumes "0 < x" "x < pi"
  shows "sin x < x"
proof -
  define y where "y = x / 2"
  have y: "0 < y" "y < pi" "y \<le> pi" using assms by (simp_all add: y_def)
  have c1: "cos y < 1"
    using cos_monotone_0_pi [of 0 y] y by simp
  have s0: "0 < sin y" using y by (simp add: sin_gt_zero)
  have s1: "sin y \<le> y" using y by (simp add: sin_x_le_x)
  have "sin y * cos y < sin y * 1"
    using c1 s0 by (rule mult_strict_left_mono)
  then have "2 * sin y * cos y < 2 * y" using s1 by simp
  moreover have "sin x = 2 * sin y * cos y"
    using sin_double [of y] by (simp add: y_def)
  ultimately show ?thesis by (simp add: y_def)
qed

lemma arcsin_gt_arg:
  fixes q :: real
  assumes "0 < q" "q < 1"
  shows "q < arcsin q"
proof -
  have "arcsin 0 < arcsin q" using assms by (intro arcsin_less_arcsin) simp_all
  then have pos: "0 < arcsin q" by simp
  have "arcsin q < pi / 2" using assms arcsin_lt_bounded [of q] by simp
  then have "arcsin q < pi" using pi_gt_zero by linarith
  then have "sin (arcsin q) < arcsin q" using pos by (intro sin_less_arg)
  then show ?thesis using assms by simp
qed

lemma pi_gt_3: "3 < pi"
proof -
  have "sin (pi / 6) < pi / 6"
    by (rule sin_less_arg) (use pi_gt_zero in linarith)+
  then show ?thesis by (simp add: sin_30)
qed

lemma arcsin_half: "arcsin (1 / 2) = pi / 6"
proof -
  have "arcsin (sin (pi / 6)) = pi / 6"
    by (rule arcsin_sin) (use pi_gt_zero in linarith)+
  then show ?thesis by (simp add: sin_30)
qed

text \<open>
  The factor of the block for a current width equal to the stored one: arc over chord.
\<close>

lemma arc_over_chord_gt_one:
  fixes W R :: real
  assumes "0 < W" "W < 2 * R" "0 < R"
  shows "1 < 2 * R * arcsin (W / (2 * R)) / W"
proof -
  have "W / (2 * R) < arcsin (W / (2 * R))"
    using assms by (intro arcsin_gt_arg) simp_all
  then have "W < 2 * R * arcsin (W / (2 * R))"
    using assms by (simp add: field_simps)
  then show ?thesis using assms by simp
qed

lemma chord_of_arc:
  fixes W R :: real
  assumes "0 < W" "W < 2 * R" "0 < R"
  shows "2 * R * sin (2 * R * arcsin (W / (2 * R)) / (2 * R)) = W"
proof -
  have "2 * R * arcsin (W / (2 * R)) / (2 * R) = arcsin (W / (2 * R))"
    using assms by simp
  moreover have "0 \<le> W / (2 * R)" "W / (2 * R) \<le> 1"
    using assms by simp_all
  then have "sin (arcsin (W / (2 * R))) = W / (2 * R)"
    by (intro sin_arcsin) linarith+
  ultimately show ?thesis using assms by simp
qed

subsection \<open>Bounding boxes\<close>



lemma fold_min_le_max: "fold min r x \<le> fold max r (y::real)" if "x \<le> y"
  using that
proof (induction r arbitrary: x y)
  case Nil
  then show ?case by simp
next
  case (Cons z r)
  have "min z x \<le> max z y" using Cons.prems by (simp add: min_def max_def)
  then show ?case by (simp add: Cons.IH)
qed



lemma py_min_Inr: "xs \<noteq> [] \<Longrightarrow> \<exists>m. py_min xs = Inr m"
  by (cases xs) (auto simp: py_min_def)

lemma py_max_Inr: "xs \<noteq> [] \<Longrightarrow> \<exists>m. py_max xs = Inr m"
  by (cases xs) (auto simp: py_max_def)

lemma py_min_le_max: "py_min xs = Inr lo \<Longrightarrow> py_max xs = Inr hi \<Longrightarrow> lo \<le> hi"
  by (cases xs) (auto simp: py_min_def py_max_def fold_min_le_max)







lemma world_bbox_size_Inr:
  assumes "bound_box (objects s obj) \<noteq> []"
  shows "\<exists>sz. world_bbox_size s obj = Inr sz \<and> 0 \<le> vec_x sz"
proof -
  let ?xs = "map vec_x (world_bbox s obj)"
  let ?ys = "map vec_y (world_bbox s obj)"
  let ?zs = "map vec_z (world_bbox s obj)"
  have ne: "?xs \<noteq> []" "?ys \<noteq> []" "?zs \<noteq> []"
    using assms by (simp_all add: world_bbox_def)
  obtain xh xl yh yl zh zl where
    m: "py_max ?xs = Inr xh" "py_min ?xs = Inr xl" "py_max ?ys = Inr yh"
       "py_min ?ys = Inr yl" "py_max ?zs = Inr zh" "py_min ?zs = Inr zl"
    using py_min_Inr py_max_Inr ne by meson
  have "world_bbox_size s obj = Inr (xh - xl, yh - yl, zh - zl)"
    by (simp add: world_bbox_size_def Let_def bindE_def m)
  moreover have "xl \<le> xh" using m py_min_le_max by blast
  ultimately show ?thesis by (simp add: vec_x_def)
qed

lemma world_bbox_size_Inr_nonempty:
  "world_bbox_size s obj = Inr sz \<Longrightarrow> bound_box (objects s obj) \<noteq> []"
  by (auto simp: world_bbox_size_def Let_def bindE_def world_bbox_def py_max_def)

lemma world_bbox_min_max_z_Inr:
  assumes "bound_box (objects s obj) \<noteq> []"
  shows "\<exists>lo hi. world_bbox_min_max_z s obj = Inr (lo, hi)"
proof -
  let ?zs = "map vec_z (world_bbox s obj)"
  have "?zs \<noteq> []" using assms by (simp add: world_bbox_def)
  then obtain lo hi where "py_min ?zs = Inr lo" "py_max ?zs = Inr hi"
    using py_min_Inr py_max_Inr by meson
  then show ?thesis by (simp add: world_bbox_min_max_z_def Let_def bindE_def)
qed

subsection \<open>The optional scaling\<close>

lemma apparent_width_skipped:
  "\<not> preserve_apparent_width p \<or> svg_orig_x p \<le> 0 \<Longrightarrow> apparent_width p flat s = Inr s"
  by (auto simp: apparent_width_def apparent_width_with_def)

text \<open>Under the guards of the block, the argument of \<^verbatim>\<open>asin\<close> is in [0, 1).\<close>

lemma chord_ratio_bounds:
  fixes W R :: real
  assumes "0 < W" "W < 2 * R" "0 < R"
  shows "0 \<le> W / (2 * R)" "W / (2 * R) < 1"
  using assms by simp_all

lemma apparent_width_with_agree:
  assumes fa: "\<And>x. 0 \<le> x \<Longrightarrow> x < 1 \<Longrightarrow> asin_f x = py_asin x"
    and da: "\<And>a b. 0 < b \<Longrightarrow> div_f a b = py_div a b"
  shows "apparent_width_with asin_f div_f p flat s = apparent_width p flat s"
proof (cases "preserve_apparent_width p \<and> svg_orig_x p > 0 \<and>
    svg_orig_x p < 2 * to_meters (cyl_outer_r p) (Some (cyl_unit p)) \<and>
    to_meters (cyl_outer_r p) (Some (cyl_unit p)) > 0")
  case False
  then show ?thesis
    by (auto simp: apparent_width_def apparent_width_with_def Let_def)
next
  case True
  define R where "R = to_meters (cyl_outer_r p) (Some (cyl_unit p))"
  define W where "W = svg_orig_x p"
  from True have g: "0 < W" "W < 2 * R" "0 < R" by (simp_all add: R_def W_def)
  have q: "div_f W (2 * R) = Inr (W / (2 * R))" "py_div W (2 * R) = Inr (W / (2 * R))"
    using g da [of "2 * R" W] by (simp_all add: py_div_def)
  have a: "asin_f (W / (2 * R)) = py_asin (W / (2 * R))"
    using chord_ratio_bounds [OF g] by (rule fa)
  have k: "0 < c \<Longrightarrow> div_f L c = py_div L c" for L c
    by (rule da)
  show ?thesis
    using True q a k
    by (auto simp: apparent_width_def apparent_width_with_def Let_def bindE_def
        R_def [symmetric] W_def [symmetric] split: sum.splits)
qed

lemma apparent_width_taken:
  assumes "preserve_apparent_width p" "0 < svg_orig_x p"
    and "svg_orig_x p < 2 * to_meters (cyl_outer_r p) (Some (cyl_unit p))"
    and "0 < to_meters (cyl_outer_r p) (Some (cyl_unit p))"
    and "world_bbox_size s flat = Inr sz" "0 < vec_x sz"
  shows "apparent_width p flat s =
     Inr (view_layer_update (upd_object flat (\<lambda>ob. ob\<lparr>scale :=
        (vec_x (scale ob) *
           (2 * to_meters (cyl_outer_r p) (Some (cyl_unit p)) *
              arcsin (svg_orig_x p / (2 * to_meters (cyl_outer_r p) (Some (cyl_unit p))))
            / vec_x sz),
         vec_y (scale ob), vec_z (scale ob))\<rparr>) s))"
proof -
  define R where "R = to_meters (cyl_outer_r p) (Some (cyl_unit p))"
  define W where "W = svg_orig_x p"
  from assms have g: "0 < W" "W < 2 * R" "0 < R" by (simp_all add: R_def W_def)
  have q: "py_div W (2 * R) = Inr (W / (2 * R))"
    using g by (simp add: py_div_def)
  have a: "py_asin (W / (2 * R)) = Inr (arcsin (W / (2 * R)))"
    using chord_ratio_bounds [OF g] by (simp add: py_asin_def)
  have k: "py_div L (vec_x sz) = Inr (L / vec_x sz)" for L
    using assms(6) by (simp add: py_div_def)
  show ?thesis
    using assms(1,2,5,6) g q a k
    by (simp add: apparent_width_def apparent_width_with_def Let_def bindE_def
        R_def [symmetric] W_def [symmetric])
qed

text \<open>The block either leaves the scene alone or scales the flat object in X and updates.\<close>

lemma apparent_width_cases:
  assumes "apparent_width p flat s = Inr s1"
  shows "s1 = s \<or>
    (\<exists>k. s1 = view_layer_update (upd_object flat (\<lambda>ob. ob\<lparr>scale :=
             (vec_x (scale ob) * k, vec_y (scale ob), vec_z (scale ob))\<rparr>) s))"
  using assms
  by (auto simp: apparent_width_def apparent_width_with_def Let_def bindE_def
      split: if_splits sum.splits)

lemma apparent_width_Inr:
  assumes "bound_box (objects s flat) \<noteq> []"
  shows "\<exists>s1. apparent_width p flat s = Inr s1"
proof -
  obtain sz where sz: "world_bbox_size s flat = Inr sz"
    using world_bbox_size_Inr [OF assms] by blast
  show ?thesis
  proof (cases "preserve_apparent_width p \<and> svg_orig_x p > 0 \<and>
      svg_orig_x p < 2 * to_meters (cyl_outer_r p) (Some (cyl_unit p)) \<and>
      to_meters (cyl_outer_r p) (Some (cyl_unit p)) > 0")
    case False
    then show ?thesis
      by (auto simp: apparent_width_def apparent_width_with_def Let_def)
  next
    case True
    show ?thesis
    proof (cases "0 < vec_x sz")
      case pos: True
      show ?thesis using apparent_width_taken [of p s flat sz] True sz pos by simp
    next
      case npos: False
      define R where "R = to_meters (cyl_outer_r p) (Some (cyl_unit p))"
      define W where "W = svg_orig_x p"
      from True have g: "0 < W" "W < 2 * R" "0 < R" by (simp_all add: R_def W_def)
      have q: "py_div W (2 * R) = Inr (W / (2 * R))"
        using g by (simp add: py_div_def)
      have a: "py_asin (W / (2 * R)) = Inr (arcsin (W / (2 * R)))"
        using chord_ratio_bounds [OF g] by (simp add: py_asin_def)
      show ?thesis
        using True sz npos q a
        by (simp add: apparent_width_def apparent_width_with_def Let_def bindE_def
            R_def [symmetric] W_def [symmetric])
    qed
  qed
qed

lemma apparent_width_keeps:
  assumes "apparent_width p flat s = Inr s1"
  shows "bound_box (objects s1 i) = bound_box (objects s i)"
    and "location (objects s1 i) = location (objects s i)"
    and "rotation (objects s1 i) = rotation (objects s i)"
    and "i \<noteq> flat \<Longrightarrow> scale (objects s1 i) = scale (objects s i)"
    and "evaluated s i \<Longrightarrow> evaluated s1 i"
    and "i \<noteq> flat \<Longrightarrow> evaluated s i \<Longrightarrow> objects s1 i = objects s i"
    and "n_objects s1 = n_objects s" and "active s1 = active s"
  using apparent_width_cases [OF assms]
  by (auto simp: view_layer_update_def upd_object_def evaluated_def local_matrix_def)

subsection \<open>The two moves\<close>

lemma world_bbox_move_by: "world_bbox (move_by f dx dy dz s) obj = world_bbox s obj"
  by (simp add: world_bbox_def move_by_def upd_object_def)

lemma move_by_twice:
  "move_by f 0 0 dz (move_by f dx dy 0 s) = move_by f dx dy dz s"
  by (simp add: move_by_def upd_object_def vec_x_def vec_y_def vec_z_def)

text \<open>
  The operator reads the second object's height after the first move, from world
  matrices that the move has not touched.
\<close>

lemma place_after_scaling:
  assumes aw: "apparent_width p flat s = Inr s1"
    and zc: "world_bbox_min_max_z s1 cube = Inr (cbot, ctop)"
    and zf: "world_bbox_min_max_z s1 flat = Inr (lo, hi)"
  shows "PlaceSvgOnCubeTopJoin_place p flat cube s =
     Inr (move_by flat
            (fst (world_bbox_center_xy s1 cube) - fst (world_bbox_center_xy s1 flat))
            (snd (world_bbox_center_xy s1 cube) - snd (world_bbox_center_xy s1 flat))
            (ctop - lo) s1)"
proof -
  have z: "world_bbox_min_max_z (move_by flat dx dy dz s1) obj = world_bbox_min_max_z s1 obj"
    for dx dy dz obj
    by (simp add: world_bbox_min_max_z_def world_bbox_move_by)
  show ?thesis
    by (simp add: PlaceSvgOnCubeTopJoin_place_def aw bindE_def Let_def split_beta z zc zf
        move_by_twice)
qed

lemma place_Inr:
  assumes "bound_box (objects s flat) \<noteq> []" "bound_box (objects s cube) \<noteq> []"
  shows "\<exists>s1 cbot ctop lo hi.
     apparent_width p flat s = Inr s1 \<and>
     world_bbox_min_max_z s1 cube = Inr (cbot, ctop) \<and>
     world_bbox_min_max_z s1 flat = Inr (lo, hi) \<and>
     PlaceSvgOnCubeTopJoin_place p flat cube s =
       Inr (move_by flat
              (fst (world_bbox_center_xy s1 cube) - fst (world_bbox_center_xy s1 flat))
              (snd (world_bbox_center_xy s1 cube) - snd (world_bbox_center_xy s1 flat))
              (ctop - lo) s1)"
proof -
  obtain s1 where aw: "apparent_width p flat s = Inr s1"
    using apparent_width_Inr [OF assms(1)] by blast
  have "bound_box (objects s1 flat) \<noteq> []" "bound_box (objects s1 cube) \<noteq> []"
    using assms by (simp_all add: apparent_width_keeps(1) [OF aw])
  then obtain cbot ctop lo hi where
    z: "world_bbox_min_max_z s1 cube = Inr (cbot, ctop)"
       "world_bbox_min_max_z s1 flat = Inr (lo, hi)"
    using world_bbox_min_max_z_Inr by meson
  show ?thesis using aw z place_after_scaling [OF aw z] by blast
qed





subsection \<open>The concrete scene\<close>

lemma example_cm: "to_meters v (Some ''cm'') = v / 100"
  by (simp add: to_meters_def lower_def lower_char_def)

lemma example_objects:
  "objects example_scene 0 = example_flat" "objects example_scene (Suc 0) = example_cube"
  by (simp_all add: example_scene_def)

lemma example_world_bbox_flat:
  "world_bbox example_scene 0 =
     [(3, 4, 5), (3, 4, 51/10), (3, 6, 51/10), (3, 6, 5),
      (4, 4, 5), (4, 4, 51/10), (4, 6, 51/10), (4, 6, 5)]"
  by (simp add: world_bbox_def example_objects example_flat_def mat_apply_def vec_add_def
      vec_smul_def vec_x_def vec_y_def vec_z_def)


lemma example_size: "world_bbox_size example_scene 0 = Inr (1, 2, 1/10)"
  by (simp add: world_bbox_size_def Let_def example_world_bbox_flat bindE_def py_min_def
      py_max_def vec_x_def vec_y_def vec_z_def)


lemma example_boxes:
  "length (bound_box (objects example_scene 0)) = 8"
  "length (bound_box (objects example_scene (Suc 0))) = 8"
  by (simp_all add: example_objects example_flat_def example_cube_def unit_cube_box_def)

subsection \<open>The operator as a whole\<close>

lemma execute_finished:
  assumes "flat_obj p = Some flat" "cube_obj p = Some cube"
    and "PlaceSvgOnCubeTopJoin_place p flat cube s = Inr s1"
  shows "PlaceSvgOnCubeTopJoin_execute join p s =
     Inr (FINISHED, [(INFO, Text ''SVG aligned on cube and joined.'')],
          p\<lparr>flat_obj := None, cube_obj := active (join (before_join flat cube s1))\<rparr>,
          join (before_join flat cube s1))"
  using assms by (simp add: PlaceSvgOnCubeTopJoin_execute_def bindE_def Let_def)

lemma execute_cancelled:
  assumes "flat_obj p = None \<or> cube_obj p = None"
  shows "PlaceSvgOnCubeTopJoin_execute join p s =
     Inr (CANCELLED, [(ERROR, Text ''SVG or Cube not set.'')], p, s)"
  using assms by (auto simp: PlaceSvgOnCubeTopJoin_execute_def split: option.splits)

lemma before_join_keeps:
  "scale (objects (before_join flat cube s) i) = scale (objects s i)"
  "location (objects (before_join flat cube s) i) = location (objects s i)"
  "active (before_join flat cube s) = Some cube"
  by (simp_all add: before_join_def select_set_def select_all_deselect_def upd_object_def)

lemma place_scaled:
  assumes "preserve_apparent_width p" "0 < svg_orig_x p"
    and "svg_orig_x p < 2 * to_meters (cyl_outer_r p) (Some (cyl_unit p))"
    and "0 < to_meters (cyl_outer_r p) (Some (cyl_unit p))"
    and sz: "world_bbox_size s flat = Inr sz" and pos: "0 < vec_x sz"
    and cb: "bound_box (objects s cube) \<noteq> []"
  shows "\<exists>s1. PlaceSvgOnCubeTopJoin_place p flat cube s = Inr s1 \<and>
     vec_x (scale (objects s1 flat)) =
       vec_x (scale (objects s flat)) *
         (2 * to_meters (cyl_outer_r p) (Some (cyl_unit p)) *
            arcsin (svg_orig_x p / (2 * to_meters (cyl_outer_r p) (Some (cyl_unit p))))
          / vec_x sz)"
proof -
  define k where "k = 2 * to_meters (cyl_outer_r p) (Some (cyl_unit p)) *
            arcsin (svg_orig_x p / (2 * to_meters (cyl_outer_r p) (Some (cyl_unit p))))
          / vec_x sz"
  define s1 where "s1 = view_layer_update (upd_object flat (\<lambda>ob. ob\<lparr>scale :=
        (vec_x (scale ob) * k, vec_y (scale ob), vec_z (scale ob))\<rparr>) s)"
  have aw: "apparent_width p flat s = Inr s1"
    unfolding s1_def k_def by (rule apparent_width_taken [OF assms(1-4) sz pos])
  have fb: "bound_box (objects s flat) \<noteq> []"
    using sz by (rule world_bbox_size_Inr_nonempty)
  obtain s1' cbot ctop lo hi where
    r: "apparent_width p flat s = Inr s1'"
       "PlaceSvgOnCubeTopJoin_place p flat cube s =
          Inr (move_by flat
                (fst (world_bbox_center_xy s1' cube) - fst (world_bbox_center_xy s1' flat))
                (snd (world_bbox_center_xy s1' cube) - snd (world_bbox_center_xy s1' flat))
                (ctop - lo) s1')"
    using place_Inr [OF fb cb, of p] by blast
  from r(1) aw have eq: "s1' = s1" by simp
  have "vec_x (scale (objects (move_by flat dx dy dz s1) flat)) =
        vec_x (scale (objects s flat)) * k" for dx dy dz
    by (simp add: move_by_def upd_object_def s1_def view_layer_update_def vec_x_def)
  with r(2) eq show ?thesis unfolding k_def by auto
qed

section \<open>The claims\<close>

text \<open>
  C4. For every value \<open>v\<close> and unit string \<open>u\<close>, \<^verbatim>\<open>_to_meters\<close> returns \<open>v / 1000\<close> when
  the lower-cased unit is "mm", \<open>v / 100\<close> when it is "cm", and \<open>v\<close> unchanged when it is
  "m".
\<close>

theorem to_meters_units:
  "(lower u = ''mm'' \<longrightarrow> to_meters v (Some u) = v / 1000) \<and>
   (lower u = ''cm'' \<longrightarrow> to_meters v (Some u) = v / 100) \<and>
   (lower u = ''m'' \<longrightarrow> to_meters v (Some u) = v)"
  by (simp add: to_meters_Some)

theorem to_meters_units_witness:
  "lower ''MM'' = ''mm'' \<and> to_meters 2500 (Some ''MM'') = 5 / 2 \<and>
   lower ''cm'' = ''cm'' \<and> to_meters 250 (Some ''cm'') = 5 / 2 \<and>
   lower ''M'' = ''m'' \<and> to_meters 3 (Some ''M'') = 3"
  using to_meters_units [of "''MM''" 2500] to_meters_units [of "''cm''" 250]
    to_meters_units [of "''M''" 3]
  by (simp add: lower_mm lower_cm lower_m)

text \<open>
  C10. \<^verbatim>\<open>_to_meters\<close> has no raising branch (the model is a total function with no
  error result). For every unit that is not one of the spellings of "mm" or "cm" in
  upper, lower or mixed case, among them None, the empty string and unknown units, it
  returns the value unchanged; and two units that differ only in the case of their
  letters are converted alike, so each spelling behaves as its lower-case form.
\<close>

theorem to_meters_default:
  "(u \<notin> {Some ''mm'', Some ''mM'', Some ''Mm'', Some ''MM'',
          Some ''cm'', Some ''cM'', Some ''Cm'', Some ''CM''} \<longrightarrow> to_meters v u = v) \<and>
   to_meters v None = v \<and> to_meters v (Some []) = v \<and>
   (lower s = lower t \<longrightarrow> to_meters v (Some s) = to_meters v (Some t)) \<and>
   to_meters v (Some s) = to_meters v (Some (lower s))"
proof -
  have a: "u \<notin> {Some ''mm'', Some ''mM'', Some ''Mm'', Some ''MM'',
          Some ''cm'', Some ''cM'', Some ''Cm'', Some ''CM''} \<longrightarrow> to_meters v u = v"
  proof (cases u)
    case None
    then show ?thesis by (simp add: to_meters_def lower_def lower_char_def)
  next
    case (Some w)
    then show ?thesis
      using lower_mm [of w] lower_cm [of w] by (auto simp: to_meters_Some)
  qed
  have b: "to_meters v None = v" "to_meters v (Some []) = v"
    by (simp_all add: to_meters_def lower_def lower_char_def)
  have d: "lower s = lower t \<longrightarrow> to_meters v (Some s) = to_meters v (Some t)"
    by (simp add: to_meters_Some)
  have e: "to_meters v (Some s) = to_meters v (Some (lower s))"
    by (simp add: to_meters_Some lower_idem)
  from a b d e show ?thesis by blast
qed

theorem to_meters_default_witness:
  "Some ''inch'' \<notin> {Some ''mm'', Some ''mM'', Some ''Mm'', Some ''MM'',
          Some ''cm'', Some ''cM'', Some ''Cm'', Some ''CM''} \<and>
   to_meters 7 (Some ''inch'') = 7 \<and>
   lower ''Cm'' = lower ''cM'' \<and> to_meters 7 (Some ''Cm'') = to_meters 7 (Some ''cM'') \<and>
   to_meters 7 (Some ''Cm'') = 7 / 100"
proof -
  have l: "lower ''Cm'' = ''cm''" "lower ''cM'' = ''cm''"
    by (simp_all add: lower_cm)
  have "to_meters 7 (Some ''Cm'') = 7 / 100"
    using l(1) by (simp add: to_meters_Some)
  then show ?thesis
    using to_meters_default [of "Some ''inch''" 7 "''Cm''" "''cM''"] l by simp
qed

text \<open>
  C1. For every settings record within the ranges of its properties whose converted
  inner radius is strictly smaller than its converted outer radius, the cube operator
  finishes, reports and leaves a cube whose dimensions are X = 2 pi outer (the
  circumference), Y = height and Z = outer - inner (the wall thickness), all in metres.
  The host's modifier application is taken as it is specified for a subdivision of type
  SIMPLE.
\<close>

theorem add_cube_dimensions:
  assumes ranges: "props_ranges p"
    and lt: "to_meters (cyl_inner_r p) (Some (cyl_unit p))
               < to_meters (cyl_outer_r p) (Some (cyl_unit p))"
    and keeps: "simple_subdivision_keeps_shape modifier_apply"
  shows "\<exists>p' s' cube.
           AddCubeFromCylinder_execute modifier_apply p s =
             Inr (FINISHED,
                  [(INFO, CylinderToCube
                            (2 * pi * to_meters (cyl_outer_r p) (Some (cyl_unit p)))
                            (to_meters (cyl_height p) (Some (cyl_unit p)))
                            (to_meters (cyl_outer_r p) (Some (cyl_unit p))
                               - to_meters (cyl_inner_r p) (Some (cyl_unit p))))],
                  p', s') \<and>
           cube_obj p' = Some cube \<and>
           dimensions (objects s' cube) =
             (2 * pi * to_meters (cyl_outer_r p) (Some (cyl_unit p)),
              to_meters (cyl_height p) (Some (cyl_unit p)),
              to_meters (cyl_outer_r p) (Some (cyl_unit p))
                - to_meters (cyl_inner_r p) (Some (cyl_unit p)))"
proof -
  define outer where "outer = to_meters (cyl_outer_r p) (Some (cyl_unit p))"
  define inner where "inner = to_meters (cyl_inner_r p) (Some (cyl_unit p))"
  define height where "height = to_meters (cyl_height p) (Some (cyl_unit p))"
  define c where "c = n_objects s"
  define s4 where "s4 = ensure_subsurf c ''CYLSVG_CubeSubd'' (py_int (cyl_subdiv p))
      (upd_object c (set_dimensions (2 * pi * outer, height, outer - inner))
         (upd_object c (\<lambda>ob. ob\<lparr>name := ''CYLSVG_Cube''\<rparr>) (primitive_cube_add s)))"
  define s5 where "s5 = apply_modifiers modifier_apply (Some c) s4"
  have run: "AddCubeFromCylinder_execute modifier_apply p s =
      Inr (FINISHED, [(INFO, CylinderToCube (2 * pi * outer) height (outer - inner))],
           p\<lparr>cube_obj := Some c\<rparr>, s5)"
    using lt add_cube_unfold [of p modifier_apply s]
    by (simp add: outer_def inner_def height_def c_def s4_def s5_def)
  have nonneg: "0 \<le> inner" "0 \<le> height"
    using ranges by (simp_all add: props_ranges_def inner_def height_def to_meters_nonneg)
  have pos: "0 < outer" "0 < outer - inner"
    using lt nonneg by (simp_all add: outer_def inner_def)
  have sc4: "scale (objects s4 c) = (2 * pi * outer, height, outer - inner)"
    and bb4: "bound_box (objects s4 c) = unit_cube_box"
    unfolding s4_def c_def by (rule cube_before_modifiers)+
  have "scale (objects s5 c) = scale (objects s4 c) \<and>
        bound_box (objects s5 c) = bound_box (objects s4 c)"
    unfolding s5_def
  proof (rule apply_modifiers_single [OF _ _ _ keeps])
    show "modifiers (objects s4 c) =
      [(''CYLSVG_CubeSubd'',
        \<lparr>mod_type = ''SUBSURF'', levels = max 1 (py_int (cyl_subdiv p)),
         render_levels = max 1 (py_int (cyl_subdiv p)), subdivision_type = ''SIMPLE''\<rparr>)]"
      unfolding s4_def c_def by (rule cube_before_modifiers)
  qed simp_all
  with sc4 bb4 have "scale (objects s5 c) = (2 * pi * outer, height, outer - inner)"
    and "box_size (objects s5 c) = (1, 1, 1)"
    by (simp_all add: box_size_unit_cube)
  then have "dimensions (objects s5 c) = (2 * pi * outer, height, outer - inner)"
    using pos nonneg by (simp add: dimensions_def vec_x_def vec_y_def vec_z_def)
  with run show ?thesis
    unfolding outer_def inner_def height_def by simp
qed

theorem add_cube_dimensions_witness:
  "props_ranges example_props \<and>
   to_meters (cyl_inner_r example_props) (Some (cyl_unit example_props))
     < to_meters (cyl_outer_r example_props) (Some (cyl_unit example_props)) \<and>
   simple_subdivision_keeps_shape example_modifier_apply \<and>
   (\<exists>p' s' cube.
      AddCubeFromCylinder_execute example_modifier_apply example_props example_scene =
        Inr (FINISHED, [(INFO, CylinderToCube (2 * pi) 2 (1 / 5))], p', s') \<and>
      cube_obj p' = Some cube \<and>
      dimensions (objects s' cube) = (2 * pi, 2, 1 / 5))"
proof -
  have mm: "to_meters v (Some ''cm'') = v / 100" for v
    by (simp add: to_meters_def lower_def lower_char_def)
  have a: "props_ranges example_props"
    by (simp add: props_ranges_def example_props_def)
  have b: "to_meters (cyl_inner_r example_props) (Some (cyl_unit example_props))
     < to_meters (cyl_outer_r example_props) (Some (cyl_unit example_props))"
    by (simp add: example_props_def mm)
  have c: "simple_subdivision_keeps_shape example_modifier_apply"
    by (auto simp: simple_subdivision_keeps_shape_def example_modifier_apply_def
        upd_object_def split: option.splits)
  show ?thesis
    using add_cube_dimensions [OF a b c, of example_scene] a b c
    by (simp add: example_props_def mm)
qed

text \<open>
  C8. The cube operator returns CANCELLED exactly when the converted inner radius is
  greater than or equal to the converted outer radius, and then it leaves the settings and
  the scene as they were (it only reports the error). Otherwise it returns FINISHED, the
  cube reference is the handle of a new object, and the scene is what the host's modifier
  application makes of the scene in which the cube has been created: one more object,
  active, selected alone, a unit box at the origin with the scale set from the cylinder
  and the SIMPLE subdivision on its stack, every other object as before but deselected.
  The cube's name is left open: the host derives it from the one requested.
\<close>

theorem add_cube_cancelled_iff:
  "\<exists>st msgs p' s'.
     AddCubeFromCylinder_execute modifier_apply p s = Inr (st, msgs, p', s') \<and>
     (st = CANCELLED \<longleftrightarrow>
        to_meters (cyl_inner_r p) (Some (cyl_unit p))
          \<ge> to_meters (cyl_outer_r p) (Some (cyl_unit p))) \<and>
     (st = CANCELLED \<longrightarrow> p' = p \<and> s' = s) \<and>
     (st \<noteq> CANCELLED \<longrightarrow>
        st = FINISHED \<and> p' = p\<lparr>cube_obj := Some (n_objects s)\<rparr> \<and>
        (\<exists>s4 nm.
           s' = apply_modifiers modifier_apply (Some (n_objects s)) s4 \<and>
           n_objects s4 = Suc (n_objects s) \<and>
           active s4 = Some (n_objects s) \<and>
           (\<forall>i. i \<noteq> n_objects s \<longrightarrow> objects s4 i = (objects s i)\<lparr>selected := False\<rparr>) \<and>
           objects s4 (n_objects s) =
             \<lparr>name = nm, location = (0, 0, 0),
              rotation = ((1, 0, 0), (0, 1, 0), (0, 0, 1)),
              scale = (2 * pi * to_meters (cyl_outer_r p) (Some (cyl_unit p)),
                       to_meters (cyl_height p) (Some (cyl_unit p)),
                       to_meters (cyl_outer_r p) (Some (cyl_unit p))
                         - to_meters (cyl_inner_r p) (Some (cyl_unit p))),
              bound_box = unit_cube_box,
              matrix_world = ((1, 0, 0), (0, 1, 0), (0, 0, 1), (0, 0, 0)),
              modifiers =
                [(''CYLSVG_CubeSubd'',
                  \<lparr>mod_type = ''SUBSURF'', levels = max 1 (py_int (cyl_subdiv p)),
                   render_levels = max 1 (py_int (cyl_subdiv p)),
                   subdivision_type = ''SIMPLE''\<rparr>)],
              selected = True\<rparr>))"
proof (cases "to_meters (cyl_outer_r p) (Some (cyl_unit p))
                \<le> to_meters (cyl_inner_r p) (Some (cyl_unit p))")
  case True
  then show ?thesis
    by (simp add: AddCubeFromCylinder_execute_def Let_def)
next
  case False
  define d :: vec3 where "d = (2 * pi * to_meters (cyl_outer_r p) (Some (cyl_unit p)),
      to_meters (cyl_height p) (Some (cyl_unit p)),
      to_meters (cyl_outer_r p) (Some (cyl_unit p))
        - to_meters (cyl_inner_r p) (Some (cyl_unit p)))"
  define s4 where "s4 = ensure_subsurf (n_objects s) ''CYLSVG_CubeSubd'' (py_int (cyl_subdiv p))
      (upd_object (n_objects s) (set_dimensions d)
         (upd_object (n_objects s) (\<lambda>ob. ob\<lparr>name := ''CYLSVG_Cube''\<rparr>)
            (primitive_cube_add s)))"
  have run: "AddCubeFromCylinder_execute modifier_apply p s =
      Inr (FINISHED,
           [(INFO, CylinderToCube (2 * pi * to_meters (cyl_outer_r p) (Some (cyl_unit p)))
                    (to_meters (cyl_height p) (Some (cyl_unit p)))
                    (to_meters (cyl_outer_r p) (Some (cyl_unit p))
                       - to_meters (cyl_inner_r p) (Some (cyl_unit p))))],
           p\<lparr>cube_obj := Some (n_objects s)\<rparr>,
           apply_modifiers modifier_apply (Some (n_objects s)) s4)"
    unfolding s4_def d_def by (rule add_cube_unfold [OF False])
  have n: "n_objects s4 = Suc (n_objects s)"
    unfolding s4_def by (rule cube_before_modifiers)
  have a: "active s4 = Some (n_objects s)"
    and others: "\<forall>i. i \<noteq> n_objects s \<longrightarrow> objects s4 i = (objects s i)\<lparr>selected := False\<rparr>"
    and cube: "objects s4 (n_objects s) =
       \<lparr>name = ''CYLSVG_Cube'', location = (0, 0, 0),
        rotation = ((1, 0, 0), (0, 1, 0), (0, 0, 1)), scale = d,
        bound_box = unit_cube_box,
        matrix_world = ((1, 0, 0), (0, 1, 0), (0, 0, 1), (0, 0, 0)),
        modifiers =
          [(''CYLSVG_CubeSubd'',
            \<lparr>mod_type = ''SUBSURF'', levels = max 1 (py_int (cyl_subdiv p)),
             render_levels = max 1 (py_int (cyl_subdiv p)),
             subdivision_type = ''SIMPLE''\<rparr>)],
        selected = True\<rparr>"
    unfolding s4_def by (rule cube_created)+
  have fin: "\<exists>t nm.
      apply_modifiers modifier_apply (Some (n_objects s)) s4 =
        apply_modifiers modifier_apply (Some (n_objects s)) t \<and>
      n_objects t = Suc (n_objects s) \<and> active t = Some (n_objects s) \<and>
      (\<forall>i. i \<noteq> n_objects s \<longrightarrow> objects t i = (objects s i)\<lparr>selected := False\<rparr>) \<and>
      objects t (n_objects s) =
       \<lparr>name = nm, location = (0, 0, 0),
        rotation = ((1, 0, 0), (0, 1, 0), (0, 0, 1)), scale = d,
        bound_box = unit_cube_box,
        matrix_world = ((1, 0, 0), (0, 1, 0), (0, 0, 1), (0, 0, 0)),
        modifiers =
          [(''CYLSVG_CubeSubd'',
            \<lparr>mod_type = ''SUBSURF'', levels = max 1 (py_int (cyl_subdiv p)),
             render_levels = max 1 (py_int (cyl_subdiv p)),
             subdivision_type = ''SIMPLE''\<rparr>)],
        selected = True\<rparr>"
    using n a others cube by blast
  show ?thesis
    using False fin unfolding run d_def by simp
qed

theorem add_cube_cancelled_iff_witness:
  "(\<exists>msgs.
      AddCubeFromCylinder_execute example_modifier_apply
        (example_props\<lparr>cyl_inner_r := 100\<rparr>) example_scene =
        Inr (CANCELLED, msgs, example_props\<lparr>cyl_inner_r := 100\<rparr>, example_scene)) \<and>
   (\<exists>msgs s'.
      AddCubeFromCylinder_execute example_modifier_apply example_props example_scene =
        Inr (FINISHED, msgs, example_props\<lparr>cube_obj := Some 2\<rparr>, s') \<and>
      n_objects s' = 3 \<and> active s' = Some 2 \<and>
      objects s' 0 = example_flat \<and> objects s' 1 = example_cube \<and>
      bound_box (objects s' 2) = unit_cube_box \<and>
      scale (objects s' 2) = (2 * pi, 2, 1 / 5) \<and>
      modifiers (objects s' 2) = [] \<and> selected (objects s' 2))"
proof -
  have cm: "to_meters v (Some ''cm'') = v / 100" for v
    by (simp add: to_meters_def lower_def lower_char_def)
  have n: "n_objects example_scene = 2" by (simp add: example_scene_def)
  have 1: "\<exists>msgs.
      AddCubeFromCylinder_execute example_modifier_apply
        (example_props\<lparr>cyl_inner_r := 100\<rparr>) example_scene =
        Inr (CANCELLED, msgs, example_props\<lparr>cyl_inner_r := 100\<rparr>, example_scene)"
    using add_cube_cancelled_iff
      [of example_modifier_apply "example_props\<lparr>cyl_inner_r := 100\<rparr>" example_scene]
    by (auto simp: example_props_def cm)
  have v: "to_meters (cyl_outer_r example_props) (Some (cyl_unit example_props)) = 1"
      "to_meters (cyl_inner_r example_props) (Some (cyl_unit example_props)) = 4 / 5"
      "to_meters (cyl_height example_props) (Some (cyl_unit example_props)) = 2"
    by (simp_all add: example_props_def cm)
  obtain msgs s4 nm where
    run: "AddCubeFromCylinder_execute example_modifier_apply example_props example_scene =
        Inr (FINISHED, msgs, example_props\<lparr>cube_obj := Some 2\<rparr>,
             apply_modifiers example_modifier_apply (Some 2) s4)"
    and s4: "n_objects s4 = 3" "active s4 = Some 2"
      "\<forall>i. i \<noteq> 2 \<longrightarrow> objects s4 i = (objects example_scene i)\<lparr>selected := False\<rparr>"
      "objects s4 2 =
         \<lparr>name = nm, location = (0, 0, 0),
          rotation = ((1, 0, 0), (0, 1, 0), (0, 0, 1)), scale = (2 * pi, 2, 1 / 5),
          bound_box = unit_cube_box,
          matrix_world = ((1, 0, 0), (0, 1, 0), (0, 0, 1), (0, 0, 0)),
          modifiers =
            [(''CYLSVG_CubeSubd'',
              \<lparr>mod_type = ''SUBSURF'', levels = max 1 (py_int (cyl_subdiv example_props)),
               render_levels = max 1 (py_int (cyl_subdiv example_props)),
               subdivision_type = ''SIMPLE''\<rparr>)],
          selected = True\<rparr>"
    using add_cube_cancelled_iff [of example_modifier_apply example_props example_scene]
    by (auto simp: v n)
  define s3 where "s3 = (select_set 2 True (select_all_deselect s4))\<lparr>active := Some 2\<rparr>"
  have o3: "objects s3 2 = objects s4 2"
    by (simp add: s3_def select_set_def select_all_deselect_def upd_object_def s4(4))
  have a3: "active s3 = Some 2" by (simp add: s3_def)
  have m3: "modifiers (objects s3 2) =
      [(''CYLSVG_CubeSubd'',
        \<lparr>mod_type = ''SUBSURF'', levels = max 1 (py_int (cyl_subdiv example_props)),
         render_levels = max 1 (py_int (cyl_subdiv example_props)),
         subdivision_type = ''SIMPLE''\<rparr>)]"
    by (simp add: o3 s4(4))
  have ap: "apply_modifiers example_modifier_apply (Some 2) s4 =
      upd_object 2 (\<lambda>ob. ob\<lparr>modifiers := []\<rparr>) s3"
  proof -
    have "apply_modifiers example_modifier_apply (Some 2) s4 =
        fold (\<lambda>m st. case example_modifier_apply (fst m) st of None \<Rightarrow> st | Some st' \<Rightarrow> st')
          (modifiers (objects s3 2)) s3"
      by (simp add: apply_modifiers_def Let_def s3_def)
    also have "\<dots> = (case example_modifier_apply ''CYLSVG_CubeSubd'' s3 of
                         None \<Rightarrow> s3 | Some st' \<Rightarrow> st')"
      by (simp add: m3)
    also have "\<dots> = upd_object 2 (\<lambda>ob. ob\<lparr>modifiers := []\<rparr>) s3"
      by (simp add: example_modifier_apply_def a3 m3 upd_object_def)
    finally show ?thesis .
  qed
  have others: "objects s3 0 = example_flat" "objects s3 1 = example_cube"
    using s4(3)
    by (simp_all add: s3_def select_set_def select_all_deselect_def upd_object_def
        example_objects example_flat_def example_cube_def)
  have 2: "\<exists>msgs s'.
      AddCubeFromCylinder_execute example_modifier_apply example_props example_scene =
        Inr (FINISHED, msgs, example_props\<lparr>cube_obj := Some 2\<rparr>, s') \<and>
      n_objects s' = 3 \<and> active s' = Some 2 \<and>
      objects s' 0 = example_flat \<and> objects s' 1 = example_cube \<and>
      bound_box (objects s' 2) = unit_cube_box \<and>
      scale (objects s' 2) = (2 * pi, 2, 1 / 5) \<and>
      modifiers (objects s' 2) = [] \<and> selected (objects s' 2)"
    using run others
    by (simp add: ap upd_object_def o3 s4(4)) (simp add: s3_def select_set_def
        select_all_deselect_def upd_object_def s4(1))
  from 1 2 show ?thesis by blast
qed

text \<open>
  C2. When the flag is set, the stored width \<open>W\<close> and the converted outer radius \<open>R\<close>
  satisfy \<open>0 < W < 2R\<close> and \<open>R > 0\<close>, and the flat object's current world width is
  positive, the place-and-join operator finishes and hands to the join a scene in which the
  flat object's X scale is the old one times \<open>2R asin(W / 2R)\<close> over the current width;
  a chord of the circle of radius \<open>R\<close> under an arc of that target length has length \<open>W\<close>;
  and the stored width is the world width the import operator measured.
\<close>

theorem place_apparent_width_scale:
  assumes refs: "flat_obj p = Some flat" "cube_obj p = Some cube"
    and flag: "preserve_apparent_width p"
    and W: "0 < svg_orig_x p"
           "svg_orig_x p < 2 * to_meters (cyl_outer_r p) (Some (cyl_unit p))"
    and R: "0 < to_meters (cyl_outer_r p) (Some (cyl_unit p))"
    and sz: "world_bbox_size s flat = Inr sz" and pos: "0 < vec_x sz"
    and cb: "bound_box (objects s cube) \<noteq> []"
  shows "(\<exists>s1. PlaceSvgOnCubeTopJoin_place p flat cube s = Inr s1 \<and>
            PlaceSvgOnCubeTopJoin_execute join p s =
              Inr (FINISHED, [(INFO, Text ''SVG aligned on cube and joined.'')],
                   p\<lparr>flat_obj := None, cube_obj := active (join (before_join flat cube s1))\<rparr>,
                   join (before_join flat cube s1)) \<and>
            vec_x (scale (objects (before_join flat cube s1) flat)) =
              vec_x (scale (objects s flat)) *
                (2 * to_meters (cyl_outer_r p) (Some (cyl_unit p)) *
                   arcsin (svg_orig_x p / (2 * to_meters (cyl_outer_r p) (Some (cyl_unit p))))
                 / vec_x sz)) \<and>
         2 * to_meters (cyl_outer_r p) (Some (cyl_unit p)) *
           sin (2 * to_meters (cyl_outer_r p) (Some (cyl_unit p)) *
                  arcsin (svg_orig_x p / (2 * to_meters (cyl_outer_r p) (Some (cyl_unit p))))
                / (2 * to_meters (cyl_outer_r p) (Some (cyl_unit p)))) = svg_orig_x p \<and>
         (\<forall>p0 f0 s0 p1. ImportSVG_store_orig_x p0 f0 s0 = Inr p1 \<longrightarrow>
            (\<exists>sz0. world_bbox_size s0 f0 = Inr sz0 \<and> svg_orig_x p1 = vec_x sz0))"
proof -
  obtain s1 where s1: "PlaceSvgOnCubeTopJoin_place p flat cube s = Inr s1"
    and sc: "vec_x (scale (objects s1 flat)) =
       vec_x (scale (objects s flat)) *
         (2 * to_meters (cyl_outer_r p) (Some (cyl_unit p)) *
            arcsin (svg_orig_x p / (2 * to_meters (cyl_outer_r p) (Some (cyl_unit p))))
          / vec_x sz)"
    using place_scaled [OF flag W R sz pos cb] by blast
  have a: "\<exists>s1. PlaceSvgOnCubeTopJoin_place p flat cube s = Inr s1 \<and>
            PlaceSvgOnCubeTopJoin_execute join p s =
              Inr (FINISHED, [(INFO, Text ''SVG aligned on cube and joined.'')],
                   p\<lparr>flat_obj := None, cube_obj := active (join (before_join flat cube s1))\<rparr>,
                   join (before_join flat cube s1)) \<and>
            vec_x (scale (objects (before_join flat cube s1) flat)) =
              vec_x (scale (objects s flat)) *
                (2 * to_meters (cyl_outer_r p) (Some (cyl_unit p)) *
                   arcsin (svg_orig_x p / (2 * to_meters (cyl_outer_r p) (Some (cyl_unit p))))
                 / vec_x sz)"
    using s1 sc execute_finished [OF refs s1, of join] by (auto simp: before_join_keeps)
  have b: "2 * to_meters (cyl_outer_r p) (Some (cyl_unit p)) *
           sin (2 * to_meters (cyl_outer_r p) (Some (cyl_unit p)) *
                  arcsin (svg_orig_x p / (2 * to_meters (cyl_outer_r p) (Some (cyl_unit p))))
                / (2 * to_meters (cyl_outer_r p) (Some (cyl_unit p)))) = svg_orig_x p"
    by (rule chord_of_arc [OF W R])
  have c: "\<exists>sz0. world_bbox_size s0 f0 = Inr sz0 \<and> svg_orig_x p1 = vec_x sz0"
    if imp: "ImportSVG_store_orig_x p0 f0 s0 = Inr p1" for p0 f0 s0 p1
  proof -
    from imp obtain sz0 where z: "world_bbox_size s0 f0 = Inr sz0"
      and p1: "p1 = p0\<lparr>svg_orig_x := max 0 (vec_x sz0)\<rparr>"
      by (auto simp: ImportSVG_store_orig_x_def bindE_def split: sum.splits)
    have "bound_box (objects s0 f0) \<noteq> []"
      using z by (rule world_bbox_size_Inr_nonempty)
    then have "0 \<le> vec_x sz0" using world_bbox_size_Inr [of s0 f0] z by auto
    then show ?thesis using z p1 by simp
  qed
  from a b c show ?thesis by blast
qed

theorem place_apparent_width_scale_witness:
  "\<exists>s1. PlaceSvgOnCubeTopJoin_place example_props 0 1 example_scene = Inr s1 \<and>
     PlaceSvgOnCubeTopJoin_execute (\<lambda>s. s) example_props example_scene =
       Inr (FINISHED, [(INFO, Text ''SVG aligned on cube and joined.'')],
            example_props\<lparr>flat_obj := None, cube_obj := Some 1\<rparr>, before_join 0 1 s1) \<and>
     vec_x (scale (objects example_scene 0)) = 1 \<and>
     vec_x (scale (objects (before_join 0 1 s1) 0)) = pi / 3"
proof -
  have h: "flat_obj example_props = Some 0" "cube_obj example_props = Some 1"
    "preserve_apparent_width example_props" "0 < svg_orig_x example_props"
    "svg_orig_x example_props
       < 2 * to_meters (cyl_outer_r example_props) (Some (cyl_unit example_props))"
    "0 < to_meters (cyl_outer_r example_props) (Some (cyl_unit example_props))"
    by (simp_all add: example_props_def example_cm)
  have z: "world_bbox_size example_scene 0 = Inr (1, 2, 1/10)" "0 < vec_x (1, 2, 1/10 :: real)"
    by (simp_all add: example_size vec_x_def)
  have cb: "bound_box (objects example_scene 1) \<noteq> []"
    by (simp add: example_objects example_cube_def unit_cube_box_def)
  have vx: "vec_x (1, 2, 1/10 :: real) = 1" by (simp add: vec_x_def)
  have v: "to_meters (cyl_outer_r example_props) (Some (cyl_unit example_props)) = 1"
    "svg_orig_x example_props = 1" "vec_x (scale (objects example_scene 0)) = 1"
    by (simp_all add: example_props_def example_cm example_objects example_flat_def vec_x_def)
  show ?thesis
    using place_apparent_width_scale [OF h z cb, of "\<lambda>s. s"]
    by (simp add: v vx arcsin_half before_join_keeps)
qed

text \<open>
  C3, as the code has it. For \<open>0 < W < 2R\<close> and \<open>R > 0\<close>, with the flag set and the flat
  object's current world width equal to the stored width \<open>W\<close>, the operator multiplies the
  flat object's X scale by \<open>2R asin(W / 2R) / W\<close>, and this factor is greater than 1: the
  arc is longer than its chord, so the object is stretched before the bend, not
  compressed.
\<close>

theorem apparent_width_factor_gt_one:
  assumes flag: "preserve_apparent_width p"
    and W: "0 < svg_orig_x p"
           "svg_orig_x p < 2 * to_meters (cyl_outer_r p) (Some (cyl_unit p))"
    and R: "0 < to_meters (cyl_outer_r p) (Some (cyl_unit p))"
    and sz: "world_bbox_size s flat = Inr sz" and cur: "vec_x sz = svg_orig_x p"
    and cb: "bound_box (objects s cube) \<noteq> []"
  shows "\<exists>s1. PlaceSvgOnCubeTopJoin_place p flat cube s = Inr s1 \<and>
           vec_x (scale (objects s1 flat)) =
             vec_x (scale (objects s flat)) *
               (2 * to_meters (cyl_outer_r p) (Some (cyl_unit p)) *
                  arcsin (svg_orig_x p / (2 * to_meters (cyl_outer_r p) (Some (cyl_unit p))))
                / svg_orig_x p) \<and>
           1 < 2 * to_meters (cyl_outer_r p) (Some (cyl_unit p)) *
                 arcsin (svg_orig_x p / (2 * to_meters (cyl_outer_r p) (Some (cyl_unit p))))
               / svg_orig_x p"
proof -
  have pos: "0 < vec_x sz" using W(1) cur by simp
  show ?thesis
    using place_scaled [OF flag W R sz pos cb] arc_over_chord_gt_one [OF W R]
    by (simp add: cur)
qed

theorem apparent_width_factor_gt_one_witness:
  "\<exists>s1. PlaceSvgOnCubeTopJoin_place example_props 0 1 example_scene = Inr s1 \<and>
     vec_x (scale (objects s1 0)) = vec_x (scale (objects example_scene 0)) * (pi / 3) \<and>
     1 < pi / 3"
proof -
  have h: "preserve_apparent_width example_props" "0 < svg_orig_x example_props"
    "svg_orig_x example_props
       < 2 * to_meters (cyl_outer_r example_props) (Some (cyl_unit example_props))"
    "0 < to_meters (cyl_outer_r example_props) (Some (cyl_unit example_props))"
    by (simp_all add: example_props_def example_cm)
  have z: "world_bbox_size example_scene 0 = Inr (1, 2, 1/10)"
    "vec_x (1, 2, 1/10 :: real) = svg_orig_x example_props"
    by (simp_all add: example_size vec_x_def example_props_def)
  have cb: "bound_box (objects example_scene 1) \<noteq> []"
    by (simp add: example_objects example_cube_def unit_cube_box_def)
  have vx: "vec_x (1, 2, 1/10 :: real) = 1" by (simp add: vec_x_def)
  have v: "to_meters (cyl_outer_r example_props) (Some (cyl_unit example_props)) = 1"
    "svg_orig_x example_props = 1"
    by (simp_all add: example_props_def example_cm)
  show ?thesis
    using apparent_width_factor_gt_one [OF h z cb]
    by (simp add: v arcsin_half)
qed

text \<open>
  C3 as stated fails: in the concrete scene the flag is set, \<open>W = 1\<close>, \<open>R = 1\<close>, the
  current width is \<open>W\<close>, and the operator multiplies the X scale by \<open>pi / 3\<close>, which is
  not at most 1.
\<close>

theorem apparent_width_factor_counterexample:
  "preserve_apparent_width example_props \<and> svg_orig_x example_props = 1 \<and>
   to_meters (cyl_outer_r example_props) (Some (cyl_unit example_props)) = 1 \<and>
   world_bbox_size example_scene 0 = Inr (1, 2, 1/10) \<and>
   vec_x (scale (objects example_scene 0)) = 1 \<and>
   (case PlaceSvgOnCubeTopJoin_place example_props 0 1 example_scene of
      Inl e \<Rightarrow> False
    | Inr s1 \<Rightarrow> vec_x (scale (objects s1 0)) = 2 * 1 * arcsin (1 / (2 * 1)) / 1) \<and>
   \<not> (2 * 1 * arcsin (1 / (2 * 1)) / 1 \<le> (1::real))"
proof -
  have h: "preserve_apparent_width example_props" "0 < svg_orig_x example_props"
    "svg_orig_x example_props
       < 2 * to_meters (cyl_outer_r example_props) (Some (cyl_unit example_props))"
    "0 < to_meters (cyl_outer_r example_props) (Some (cyl_unit example_props))"
    by (simp_all add: example_props_def example_cm)
  have z: "world_bbox_size example_scene 0 = Inr (1, 2, 1/10)" "0 < vec_x (1, 2, 1/10 :: real)"
    by (simp_all add: example_size vec_x_def)
  have cb: "bound_box (objects example_scene 1) \<noteq> []"
    by (simp add: example_objects example_cube_def unit_cube_box_def)
  have vx: "vec_x (1, 2, 1/10 :: real) = 1" by (simp add: vec_x_def)
  have v: "to_meters (cyl_outer_r example_props) (Some (cyl_unit example_props)) = 1"
    "svg_orig_x example_props = 1" "vec_x (scale (objects example_scene 0)) = 1"
    by (simp_all add: example_props_def example_cm example_objects example_flat_def vec_x_def)
  have "\<exists>s1. PlaceSvgOnCubeTopJoin_place example_props 0 1 example_scene = Inr s1 \<and>
     vec_x (scale (objects s1 0)) = 2 * 1 * arcsin (1 / (2 * 1)) / 1"
    using place_scaled [OF h z cb] by (simp add: v vx)
  moreover have "\<not> (2 * 1 * arcsin (1 / (2 * 1)) / 1 \<le> (1::real))"
    using pi_gt_3 by (simp add: arcsin_half)
  ultimately show ?thesis using h(1) v z(1) by auto
qed




text \<open>
  C6. After every run of the place-and-join operator that returns FINISHED, the flat
  reference of the settings is None and the cube reference is the active object of the
  scene the host's join returned, the object joined into: the join was called with the
  cube active and the cube and the flat object selected.
\<close>

theorem place_join_references:
  assumes "PlaceSvgOnCubeTopJoin_execute join p s = Inr (FINISHED, msgs, p', s')"
  shows "flat_obj p' = None \<and> cube_obj p' = active s' \<and>
         (\<exists>flat cube s1.
            flat_obj p = Some flat \<and> cube_obj p = Some cube \<and>
            PlaceSvgOnCubeTopJoin_place p flat cube s = Inr s1 \<and>
            s' = join (before_join flat cube s1) \<and>
            active (before_join flat cube s1) = Some cube \<and>
            selected (objects (before_join flat cube s1) cube) \<and>
            selected (objects (before_join flat cube s1) flat))"
proof (cases "flat_obj p = None \<or> cube_obj p = None")
  case True
  then show ?thesis using assms execute_cancelled [OF True, of join s] by simp
next
  case False
  then obtain flat cube where refs: "flat_obj p = Some flat" "cube_obj p = Some cube"
    by auto
  show ?thesis
  proof (cases "PlaceSvgOnCubeTopJoin_place p flat cube s")
    case (Inl e)
    then show ?thesis
      using assms refs by (simp add: PlaceSvgOnCubeTopJoin_execute_def bindE_def)
  next
    case (Inr s1)
    have sel: "selected (objects (before_join flat cube s1) cube)"
      "selected (objects (before_join flat cube s1) flat)"
      by (simp_all add: before_join_def select_set_def select_all_deselect_def upd_object_def)
    show ?thesis
      using assms refs Inr sel execute_finished [OF refs Inr, of join]
      by (auto simp: before_join_keeps)
  qed
qed

theorem place_join_references_witness:
  "\<exists>msgs p' s'.
     PlaceSvgOnCubeTopJoin_execute (\<lambda>s. s) example_props example_scene
       = Inr (FINISHED, msgs, p', s') \<and>
     flat_obj p' = None \<and> cube_obj p' = Some 1 \<and> active s' = Some 1"
proof -
  have refs: "flat_obj example_props = Some 0" "cube_obj example_props = Some 1"
    by (simp_all add: example_props_def)
  have "bound_box (objects example_scene 0) \<noteq> []" "bound_box (objects example_scene 1) \<noteq> []"
    using example_boxes by auto
  then obtain s1 where "PlaceSvgOnCubeTopJoin_place example_props 0 1 example_scene = Inr s1"
    using place_Inr [of example_scene 0 1 example_props] by blast
  then have run: "PlaceSvgOnCubeTopJoin_execute (\<lambda>s. s) example_props example_scene =
     Inr (FINISHED, [(INFO, Text ''SVG aligned on cube and joined.'')],
          example_props\<lparr>flat_obj := None, cube_obj := active (before_join 0 1 s1)\<rparr>,
          before_join 0 1 s1)"
    by (rule execute_finished [OF refs])
  show ?thesis
    using place_join_references [OF run] refs run by auto
qed

text \<open>
  C7. When the flag is false or the stored width is not positive, the place-and-join
  operator only translates the flat object: in the scene after the moves the flat object
  has its old scale, and putting its old location back gives the scene the operator
  started from. In every run, whatever the flag, the settings the operator returns differ
  from the ones it was given in the two object references at most.
\<close>

theorem place_join_frame:
  "(\<not> preserve_apparent_width p \<or> svg_orig_x p \<le> 0 \<longrightarrow>
      (\<forall>s1. PlaceSvgOnCubeTopJoin_place p flat cube s = Inr s1 \<longrightarrow>
         scale (objects s1 flat) = scale (objects s flat) \<and>
         upd_object flat (\<lambda>ob. ob\<lparr>location := location (objects s flat)\<rparr>) s1 = s)) \<and>
   (\<forall>st msgs p' s'.
      PlaceSvgOnCubeTopJoin_execute join p s = Inr (st, msgs, p', s') \<longrightarrow>
      p'\<lparr>flat_obj := flat_obj p, cube_obj := cube_obj p\<rparr> = p)"
proof -
  have a: "scale (objects s1 flat) = scale (objects s flat) \<and>
         upd_object flat (\<lambda>ob. ob\<lparr>location := location (objects s flat)\<rparr>) s1 = s"
    if off: "\<not> preserve_apparent_width p \<or> svg_orig_x p \<le> 0"
      and pl: "PlaceSvgOnCubeTopJoin_place p flat cube s = Inr s1" for s1
  proof -
    have aw: "apparent_width p flat s = Inr s" using off by (rule apparent_width_skipped)
    have "\<exists>dx dy dz. s1 = move_by flat dx dy dz s"
      using pl
      by (auto simp: PlaceSvgOnCubeTopJoin_place_def aw bindE_def Let_def split_beta
          move_by_twice split: sum.splits)
    then obtain dx dy dz where s1: "s1 = move_by flat dx dy dz s" by blast
    show ?thesis by (simp add: s1 move_by_def upd_object_def)
  qed
  have b: "p'\<lparr>flat_obj := flat_obj p, cube_obj := cube_obj p\<rparr> = p"
    if "PlaceSvgOnCubeTopJoin_execute join p s = Inr (st, msgs, p', s')" for st msgs p' s'
    using that
    by (auto simp: PlaceSvgOnCubeTopJoin_execute_def bindE_def Let_def
        split: option.splits sum.splits)
  from a b show ?thesis by blast
qed

theorem place_join_frame_witness:
  "\<exists>s1 msgs p' s'.
     PlaceSvgOnCubeTopJoin_place (example_props\<lparr>preserve_apparent_width := False\<rparr>) 0 1
       example_scene = Inr s1 \<and>
     scale (objects s1 0) = (1, 1, 1) \<and>
     upd_object 0 (\<lambda>ob. ob\<lparr>location := (3, 4, 5)\<rparr>) s1 = example_scene \<and>
     PlaceSvgOnCubeTopJoin_execute (\<lambda>s. s) (example_props\<lparr>preserve_apparent_width := False\<rparr>)
       example_scene = Inr (FINISHED, msgs, p', s') \<and>
     p'\<lparr>flat_obj := Some 0, cube_obj := Some 1\<rparr>
       = example_props\<lparr>preserve_apparent_width := False\<rparr>"
proof -
  define P where "P = example_props\<lparr>preserve_apparent_width := False\<rparr>"
  have refs: "flat_obj P = Some 0" "cube_obj P = Some 1" "\<not> preserve_apparent_width P"
    by (simp_all add: P_def example_props_def)
  have "bound_box (objects example_scene 0) \<noteq> []" "bound_box (objects example_scene 1) \<noteq> []"
    using example_boxes by auto
  then obtain s1 where pl: "PlaceSvgOnCubeTopJoin_place P 0 1 example_scene = Inr s1"
    using place_Inr [of example_scene 0 1 P] by blast
  have run: "PlaceSvgOnCubeTopJoin_execute (\<lambda>s. s) P example_scene =
     Inr (FINISHED, [(INFO, Text ''SVG aligned on cube and joined.'')],
          P\<lparr>flat_obj := None, cube_obj := active (before_join 0 1 s1)\<rparr>,
          before_join 0 1 s1)"
    using pl by (rule execute_finished [OF refs(1,2)])
  have v: "scale (objects example_scene 0) = (1, 1, 1)"
    "location (objects example_scene 0) = (3, 4, 5)"
    by (simp_all add: example_objects example_flat_def)
  have "scale (objects s1 0) = (1, 1, 1) \<and>
     upd_object 0 (\<lambda>ob. ob\<lparr>location := (3, 4, 5)\<rparr>) s1 = example_scene \<and>
     (P\<lparr>flat_obj := None, cube_obj := active (before_join 0 1 s1)\<rparr>)
        \<lparr>flat_obj := Some 0, cube_obj := Some 1\<rparr> = P"
    using place_join_frame [of P 0 1 example_scene "\<lambda>s. s"] refs pl run
    by (simp add: v)
  with pl run show ?thesis unfolding P_def by blast
qed

text \<open>
  C9. The block of the apparent-width adjustment uses \<^verbatim>\<open>asin\<close> only on arguments in
  [0, 1) and divides only by positive numbers: replacing \<^verbatim>\<open>asin\<close> by any function
  that agrees with it on [0, 1), and the division by any function that agrees with it for
  positive divisors, leaves the result of the block unchanged. The block raises nothing
  when the flat object's bounding box has corners, and neither does the whole placement
  when the cube's has too.
\<close>

theorem apparent_width_partial_operations:
  "((\<forall>x. 0 \<le> x \<and> x < 1 \<longrightarrow> asin_f x = py_asin x) \<and>
    (\<forall>a b. 0 < b \<longrightarrow> div_f a b = py_div a b) \<longrightarrow>
      apparent_width_with asin_f div_f p flat s = apparent_width p flat s) \<and>
   (bound_box (objects s flat) \<noteq> [] \<longrightarrow> (\<exists>s1. apparent_width p flat s = Inr s1)) \<and>
   (bound_box (objects s flat) \<noteq> [] \<and> bound_box (objects s cube) \<noteq> [] \<longrightarrow>
      (\<exists>s1. PlaceSvgOnCubeTopJoin_place p flat cube s = Inr s1))"
proof -
  have a: "apparent_width_with asin_f div_f p flat s = apparent_width p flat s"
    if "\<forall>x. 0 \<le> x \<and> x < 1 \<longrightarrow> asin_f x = py_asin x"
      and "\<forall>a b. 0 < b \<longrightarrow> div_f a b = py_div a b"
    using that by (intro apparent_width_with_agree) simp_all
  have b: "\<exists>s1. apparent_width p flat s = Inr s1" if "bound_box (objects s flat) \<noteq> []"
    using that by (rule apparent_width_Inr)
  have c: "\<exists>s1. PlaceSvgOnCubeTopJoin_place p flat cube s = Inr s1"
    if "bound_box (objects s flat) \<noteq> []" "bound_box (objects s cube) \<noteq> []"
    using place_Inr [OF that, of p] by blast
  from a b c show ?thesis by blast
qed

theorem apparent_width_partial_operations_witness:
  "apparent_width_with
     (\<lambda>x. if 0 \<le> x \<and> x < 1 then py_asin x else Inl ValueError)
     (\<lambda>a b. if 0 < b then py_div a b else Inl ZeroDivisionError)
     example_props 0 example_scene
     = apparent_width example_props 0 example_scene \<and>
   (\<exists>s1. apparent_width example_props 0 example_scene = Inr s1) \<and>
   (\<exists>s1. PlaceSvgOnCubeTopJoin_place example_props 0 1 example_scene = Inr s1)"
proof -
  have "bound_box (objects example_scene 0) \<noteq> []" "bound_box (objects example_scene 1) \<noteq> []"
    using example_boxes by auto
  then show ?thesis
    using apparent_width_partial_operations
      [of "\<lambda>x. if 0 \<le> x \<and> x < 1 then py_asin x else Inl ValueError"
          "\<lambda>a b. if 0 < b then py_div a b else Inl ZeroDivisionError"
          example_props 0 example_scene 1]
    by simp
qed

end
